theory Spec2Isabelle
  imports Complex_Main "HOL-Library.AList"
begin

section \<open>Data model\<close>

text \<open>
  The two modules \<^verbatim>\<open>node_utils.py\<close> and \<^verbatim>\<open>cast_api_utils.py\<close> talk to three external
  collaborators: the Kubernetes API (\<^verbatim>\<open>v1\<close>), the \<^verbatim>\<open>kubectl drain\<close> subprocess and the
  CAST AI HTTP API, and they read the clock and sleep. The embedding keeps the cluster
  (nodes and pods) as explicit state, records every external call in a history, and
  takes the behaviour of the collaborators (faults, HTTP replies, clock readings, what
  happens to the cluster while the program sleeps or drains) from an environment of
  oracles that see the whole world, history included.

  A Python exception is a value of \<open>exn\<close>; a function that can raise returns
  \<open>exn + 'a\<close> with \<open>Inl\<close> for the raised exception.
\<close>

datatype exn =
    ApiException
  | RequestException
  | TimeoutExpired
  | ValueError
  | AttributeError
  | TypeError
  | OverflowError
  | OtherException string

text \<open>Python dictionaries from strings to strings (label sets) are association lists
  read with \<open>map_of\<close> and written with \<open>AList.update\<close>.\<close>

type_synonym labels = "(string \<times> string) list"

record condition =
  ctype :: string
  cstatus :: string

text \<open>\<open>V1Pod\<close>: \<open>metadata.name\<close>, \<open>metadata.labels\<close> (a dict or \<open>None\<close>),
  \<open>spec.node_name\<close>.\<close>

record pod =
  pname :: string
  plabels :: "labels option"
  pnode :: string

text \<open>\<open>V1Node\<close>: \<open>metadata.name\<close>, \<open>metadata.labels\<close> (a dict or \<open>None\<close>),
  \<open>spec.unschedulable\<close>, \<open>status.conditions\<close> (a list or \<open>None\<close>: the client gives
  \<open>None\<close> for a node that reports no conditions), and \<open>metadata.creation_timestamp\<close>
  (a timezone-aware \<open>datetime\<close> as microseconds since the epoch, the resolution of
  \<open>datetime\<close>, or \<open>None\<close>).\<close>

record node =
  nname :: string
  nlabels :: "labels option"
  unschedulable :: bool
  conditions :: "condition list option"
  creation_timestamp :: "int option"

text \<open>The two patch bodies the code sends: \<open>{"spec": {"unschedulable": b}}\<close> and
  \<open>{"metadata": {"labels": {k: v}}}\<close>.\<close>

datatype patch = SpecUnschedulable bool | MetadataLabel string string

text \<open>The CAST AI node-template catalog,
  \<open>{items: [{template: {name, configurationId, customTaints, customLabels}}]}\<close>.
  A key that may be missing is an option; the empty dict \<open>{}\<close> is the record with
  every key missing.\<close>

record taint =
  tkey :: string
  tvalue :: string
  teffect :: string

record template =
  name :: "string option"
  configurationId :: "string option"
  customTaints :: "taint list option"
  customLabels :: "labels option"

record item =
  template :: "template option"

record catalog =
  items :: "item list option"

definition empty_template :: template where
  "empty_template = \<lparr>name = None, configurationId = None, customTaints = None, customLabels = None\<rparr>"

definition empty_catalog :: catalog where
  "empty_catalog = \<lparr>items = None\<rparr>"

text \<open>The body of \<open>POST /nodes\<close>.\<close>

record payload =
  instanceType :: string
  pconfigurationId :: string
  kubernetesLabels :: "labels option"
  kubernetesTaints :: "taint list option"

text \<open>The reply of \<open>GET /nodes/{nodeId}\<close> is whatever JSON the service sends, as
  \<open>response.json()\<close> parses it: the code expects \<open>{state: {phase}}\<close> and does not
  check. An object is the association list of its keys.\<close>

datatype json =
    JNull
  | JBool bool
  | JNum int
  | JStr string
  | JArr "json list"
  | JObj "(string \<times> json) list"

text \<open>Every call that leaves the process.\<close>

datatype call =
    ReadNode string
  | PatchNode string patch
  | ListNode
  | ListPodForAllNamespaces string
  | KubectlDrain string int
  | GetNodeTemplates string
  | PostNode string payload
  | PostNodeDrain string string
  | GetNode string string
  | TimeTime
  | TimeSleep int

record world =
  nodes :: "node list"
  pods :: "pod list"
  history :: "call list"

text \<open>
  The environment. Every oracle is asked after the call has been appended to the
  history, so it sees which call it answers and everything before it.
  \<^item> \<open>api_fault\<close>: the exception a Kubernetes API call raises, if any;
  \<^item> \<open>subprocess_run\<close>: what \<open>kubectl drain\<close> raises, if anything, and the cluster it
    leaves behind;
  \<^item> \<open>elapse\<close>: the cluster after a \<open>time.sleep\<close>;
  \<^item> \<open>clock\<close>: the reading of \<open>time.time()\<close>;
  \<^item> the replies of the four CAST AI endpoints (the parsed JSON body, or the exception
    that \<open>requests\<close> raises).
\<close>

record env =
  api_fault :: "world \<Rightarrow> exn option"
  subprocess_run :: "world \<Rightarrow> exn option \<times> node list \<times> pod list"
  elapse :: "world \<Rightarrow> node list \<times> pod list"
  clock :: "world \<Rightarrow> real"
  get_node_templates :: "world \<Rightarrow> exn + catalog"
  post_node :: "world \<Rightarrow> exn + string option"
  post_node_drain :: "world \<Rightarrow> exn + string option"
  get_node :: "world \<Rightarrow> exn + json"

definition logged :: "call \<Rightarrow> world \<Rightarrow> world" where
  "logged c w = w\<lparr>history := history w @ [c]\<rparr>"

text \<open>The calls a computation issued: what the history gained between two worlds.\<close>

definition issued :: "world \<Rightarrow> world \<Rightarrow> call list" where
  "issued w w' = drop (length (history w)) (history w')"

section \<open>The external calls\<close>

text \<open>\<open>v1.read_node(name)\<close>: a node that does not exist is a 404 \<open>ApiException\<close>.\<close>

definition v1_read_node :: "env \<Rightarrow> string \<Rightarrow> world \<Rightarrow> (exn + node) \<times> world" where
  "v1_read_node e node_name w =
     (let w1 = logged (ReadNode node_name) w in
      case api_fault e w1 of
        Some x \<Rightarrow> (Inl x, w1)
      | None \<Rightarrow>
          (case find (\<lambda>n. nname n = node_name) (nodes w1) of
             None \<Rightarrow> (Inl ApiException, w1)
           | Some n \<Rightarrow> (Inr n, w1)))"

definition apply_patch :: "patch \<Rightarrow> node \<Rightarrow> node" where
  "apply_patch body n =
     (case body of
        SpecUnschedulable b \<Rightarrow> n\<lparr>unschedulable := b\<rparr>
      | MetadataLabel k v \<Rightarrow>
          n\<lparr>nlabels := Some (AList.update k v (case nlabels n of None \<Rightarrow> [] | Some ls \<Rightarrow> ls))\<rparr>)"

text \<open>\<open>v1.patch_node(name, body)\<close>: when the API raises, nothing changes.\<close>

definition v1_patch_node :: "env \<Rightarrow> string \<Rightarrow> patch \<Rightarrow> world \<Rightarrow> (exn + unit) \<times> world" where
  "v1_patch_node e node_name body w =
     (let w1 = logged (PatchNode node_name body) w in
      case api_fault e w1 of
        Some x \<Rightarrow> (Inl x, w1)
      | None \<Rightarrow>
          if list_ex (\<lambda>n. nname n = node_name) (nodes w1)
          then (Inr (), w1\<lparr>nodes := map (\<lambda>n. if nname n = node_name then apply_patch body n else n) (nodes w1)\<rparr>)
          else (Inl ApiException, w1))"

text \<open>\<open>v1.list_node().items\<close>.\<close>

definition v1_list_node :: "env \<Rightarrow> world \<Rightarrow> (exn + node list) \<times> world" where
  "v1_list_node e w =
     (let w1 = logged ListNode w in
      case api_fault e w1 of
        Some x \<Rightarrow> (Inl x, w1)
      | None \<Rightarrow> (Inr (nodes w1), w1))"

text \<open>\<open>v1.list_pod_for_all_namespaces(field_selector="spec.nodeName=" + name).items\<close>.\<close>

definition pods_on :: "string \<Rightarrow> world \<Rightarrow> pod list" where
  "pods_on node_name w = filter (\<lambda>p. pnode p = node_name) (pods w)"

definition v1_list_pod_for_all_namespaces :: "env \<Rightarrow> string \<Rightarrow> world \<Rightarrow> (exn + pod list) \<times> world" where
  "v1_list_pod_for_all_namespaces e node_name w =
     (let w1 = logged (ListPodForAllNamespaces node_name) w in
      case api_fault e w1 of
        Some x \<Rightarrow> (Inl x, w1)
      | None \<Rightarrow> (Inr (pods_on node_name w1), w1))"

text \<open>\<open>time.time()\<close> and \<open>time.sleep(secs)\<close>; the latter raises \<open>ValueError\<close> on a
  negative length.\<close>

definition time_time :: "env \<Rightarrow> world \<Rightarrow> real \<times> world" where
  "time_time e w = (let w1 = logged TimeTime w in (clock e w1, w1))"

definition time_sleep :: "env \<Rightarrow> int \<Rightarrow> world \<Rightarrow> (exn + unit) \<times> world" where
  "time_sleep e secs w =
     (if secs < 0 then (Inl ValueError, w)
      else let w1 = logged (TimeSleep secs) w in
        (Inr (), w1\<lparr>nodes := fst (elapse e w1), pods := snd (elapse e w1)\<rparr>))"

text \<open>\<open>subprocess.run(["kubectl", "drain", name, ...], check=True, timeout=timeout)\<close>.\<close>

definition kubectl_drain :: "env \<Rightarrow> string \<Rightarrow> int \<Rightarrow> world \<Rightarrow> (exn + unit) \<times> world" where
  "kubectl_drain e node_name timeout w =
     (let w1 = logged (KubectlDrain node_name timeout) w;
          (r, ns, ps) = subprocess_run e w1;
          w2 = w1\<lparr>nodes := ns, pods := ps\<rparr>
      in case r of Some x \<Rightarrow> (Inl x, w2) | None \<Rightarrow> (Inr (), w2))"

section \<open>node\_utils\<close>

text \<open>\<open>cordon_node\<close>, \<open>label_node\<close> and \<open>uncordon_node\<close> patch the node and swallow
  an \<open>ApiException\<close> (it is logged); any other exception leaves the function.\<close>

definition cordon_node :: "env \<Rightarrow> string \<Rightarrow> world \<Rightarrow> (exn + unit) \<times> world" where
  "cordon_node e node_name w =
     (case v1_patch_node e node_name (SpecUnschedulable True) w of
        (Inl ApiException, w1) \<Rightarrow> (Inr (), w1)
      | (Inl x, w1) \<Rightarrow> (Inl x, w1)
      | (Inr u, w1) \<Rightarrow> (Inr (), w1))"

definition label_node :: "env \<Rightarrow> string \<Rightarrow> string \<Rightarrow> string \<Rightarrow> world \<Rightarrow> (exn + unit) \<times> world" where
  "label_node e node_name label_key label_value w =
     (case v1_patch_node e node_name (MetadataLabel label_key label_value) w of
        (Inl ApiException, w1) \<Rightarrow> (Inr (), w1)
      | (Inl x, w1) \<Rightarrow> (Inl x, w1)
      | (Inr u, w1) \<Rightarrow> (Inr (), w1))"

definition uncordon_node :: "env \<Rightarrow> string \<Rightarrow> world \<Rightarrow> (exn + unit) \<times> world" where
  "uncordon_node e node_name w =
     (case v1_patch_node e node_name (SpecUnschedulable False) w of
        (Inl ApiException, w1) \<Rightarrow> (Inr (), w1)
      | (Inl x, w1) \<Rightarrow> (Inl x, w1)
      | (Inr u, w1) \<Rightarrow> (Inr (), w1))"

text \<open>Modelled from the spec: \<open>dump_pods_on_node\<close> lives in \<^verbatim>\<open>pod_utils\<close>, which is not
  among the sources. The specification says that on timeout the caller enumerates the
  pods still scheduled on the node, "the exact set of pods still scheduled on the node
  at the moment of timeout": one listing of the pods whose \<open>spec.nodeName\<close> is the node,
  returned as it is.\<close>

definition dump_pods_on_node :: "env \<Rightarrow> string \<Rightarrow> world \<Rightarrow> (exn + pod list) \<times> world" where
  "dump_pods_on_node e node_name w = v1_list_pod_for_all_namespaces e node_name w"

text \<open>\<open>drain_node_with_timeout\<close> returns \<open>None\<close> after a drain that completed and the
  dumped pod list after one that timed out. The handler of \<open>TimeoutExpired\<close> is not
  itself protected: what \<open>dump_pods_on_node\<close>, \<open>label_node\<close> or \<open>uncordon_node\<close>
  raise leaves the function. Every other exception of the subprocess is re-raised.\<close>

definition drain_node_with_timeout :: "env \<Rightarrow> string \<Rightarrow> int \<Rightarrow> world \<Rightarrow> (exn + pod list option) \<times> world" where
  "drain_node_with_timeout e node_name timeout w =
     (case kubectl_drain e node_name timeout w of
        (Inr u, w1) \<Rightarrow> (Inr None, w1)
      | (Inl TimeoutExpired, w1) \<Rightarrow>
          (case dump_pods_on_node e node_name w1 of
             (Inl x, w2) \<Rightarrow> (Inl x, w2)
           | (Inr ps, w2) \<Rightarrow>
               (case label_node e node_name ''drain-status'' ''failed'' w2 of
                  (Inl x, w3) \<Rightarrow> (Inl x, w3)
                | (Inr u, w3) \<Rightarrow>
                    (case uncordon_node e node_name w3 of
                       (Inl x, w4) \<Rightarrow> (Inl x, w4)
                     | (Inr u', w4) \<Rightarrow> (Inr (Some ps), w4))))
      | (Inl x, w1) \<Rightarrow> (Inl x, w1))"

text \<open>Python's \<open>s.split(sep)\<close> for a one-character separator: one more part than there
  are separators in \<open>s\<close>.\<close>

fun py_split :: "char \<Rightarrow> string \<Rightarrow> string list" where
  "py_split sep [] = [[]]"
| "py_split sep (c # cs) =
     (if c = sep then [] # py_split sep cs
      else (c # hd (py_split sep cs)) # tl (py_split sep cs))"

text \<open>\<open>label_key, label_value = parts\<close>: \<open>ValueError\<close> unless there are exactly two.\<close>

fun unpack2 :: "string list \<Rightarrow> exn + (string \<times> string)" where
  "unpack2 [a, b] = Inr (a, b)"
| "unpack2 parts = Inl ValueError"

text \<open>The inner loop of \<open>is_node_running_critical_pods\<close> over \<open>CRITICAL_WORKLOADS\<close>:
  \<open>Inr True\<close> when it returned \<open>True\<close>, \<open>Inr False\<close> when it ran to its end.\<close>

fun critical_labels_loop :: "pod \<Rightarrow> string list \<Rightarrow> exn + bool" where
  "critical_labels_loop p [] = Inr False"
| "critical_labels_loop p (label # rest) =
     (case unpack2 (py_split CHR ''='' label) of
        Inl x \<Rightarrow> Inl x
      | Inr (label_key, label_value) \<Rightarrow>
          (case plabels p of
             None \<Rightarrow> Inl AttributeError
           | Some ls \<Rightarrow>
               if map_of ls label_key = Some label_value then Inr True
               else critical_labels_loop p rest))"

fun critical_pods_loop :: "pod list \<Rightarrow> string list \<Rightarrow> exn + bool" where
  "critical_pods_loop [] critical_workloads = Inr False"
| "critical_pods_loop (p # rest) critical_workloads =
     (case critical_labels_loop p critical_workloads of
        Inl x \<Rightarrow> Inl x
      | Inr True \<Rightarrow> Inr True
      | Inr False \<Rightarrow> critical_pods_loop rest critical_workloads)"

text \<open>\<open>CRITICAL_WORKLOADS\<close> comes from \<^verbatim>\<open>config\<close>, which is not among the sources: it
  is the parameter \<open>critical_workloads\<close>.\<close>

definition is_node_running_critical_pods :: "env \<Rightarrow> string list \<Rightarrow> string \<Rightarrow> world \<Rightarrow> (exn + bool) \<times> world" where
  "is_node_running_critical_pods e critical_workloads node_name w =
     (case v1_list_pod_for_all_namespaces e node_name w of
        (Inl x, w1) \<Rightarrow> (Inl x, w1)
      | (Inr ps, w1) \<Rightarrow> (critical_pods_loop ps critical_workloads, w1))"

text \<open>\<open>wait_for_new_nodes\<close>: \<open>TOTAL_WAIT_CYCLES\<close> (an environment variable, 5 when unset)
  and \<open>MIN_READY_NODES\<close> (from \<^verbatim>\<open>config\<close>) are parameters. When the loop runs out of
  cycles the function ends without a \<open>return\<close>: its value is \<open>None\<close>.\<close>

definition new_nodes :: "string list \<Rightarrow> node list \<Rightarrow> string list" where
  "new_nodes original_nodes ns = map nname (filter (\<lambda>n. nname n \<notin> set original_nodes) ns)"

text \<open>\<open>all(condition.status == "True" for condition in node.status.conditions
  if condition.type == "Ready")\<close>: iterating \<open>None\<close> raises \<open>TypeError\<close>.\<close>

fun conditions_ready :: "condition list option \<Rightarrow> exn + bool" where
  "conditions_ready None = Inl TypeError"
| "conditions_ready (Some cs) =
     Inr (list_all (\<lambda>c. cstatus c = ''True'') (filter (\<lambda>c. ctype c = ''Ready'') cs))"

text \<open>The comprehension \<open>ready_new_nodes\<close>, node by node: \<open>and\<close> looks at the
  conditions only of a node whose name is in \<open>new_nodes\<close>, and the first exception
  ends the comprehension.\<close>

fun ready_new_nodes_loop :: "string list \<Rightarrow> node list \<Rightarrow> exn + node list" where
  "ready_new_nodes_loop names [] = Inr []"
| "ready_new_nodes_loop names (n # rest) =
     (if nname n \<in> set names then
        (case conditions_ready (conditions n) of
           Inl x \<Rightarrow> Inl x
         | Inr ready \<Rightarrow>
             (case ready_new_nodes_loop names rest of
                Inl x \<Rightarrow> Inl x
              | Inr rs \<Rightarrow> Inr (if ready then n # rs else rs)))
      else ready_new_nodes_loop names rest)"

definition ready_new_nodes :: "string list \<Rightarrow> node list \<Rightarrow> exn + node list" where
  "ready_new_nodes original_nodes ns = ready_new_nodes_loop (new_nodes original_nodes ns) ns"

function wait_for_new_nodes_loop :: "env \<Rightarrow> int \<Rightarrow> string list \<Rightarrow> int \<Rightarrow> world \<Rightarrow> (exn + string list option) \<times> world" where
  "wait_for_new_nodes_loop e min_ready_nodes original_nodes total_wait_cycles w =
     (if total_wait_cycles > 0 then
        (case v1_list_node e w of
           (Inl x, w1) \<Rightarrow> (Inl x, w1)
         | (Inr ns, w1) \<Rightarrow>
             (case ready_new_nodes original_nodes ns of
                Inl x \<Rightarrow> (Inl x, w1)
              | Inr rs \<Rightarrow>
                  if int (length rs) \<ge> min_ready_nodes
                  then (Inr (Some (map nname rs)), w1)
                  else (case time_sleep e 10 w1 of
                          (Inl x, w2) \<Rightarrow> (Inl x, w2)
                        | (Inr u, w2) \<Rightarrow>
                            wait_for_new_nodes_loop e min_ready_nodes original_nodes
                              (total_wait_cycles - 1) w2)))
      else (Inr None, w))"
  by pat_completeness auto
termination
  by (relation "measure (\<lambda>(e, m, original, cycles, w). nat cycles)") auto

definition wait_for_new_nodes :: "env \<Rightarrow> int \<Rightarrow> int \<Rightarrow> string list \<Rightarrow> world \<Rightarrow> (exn + string list option) \<times> world" where
  "wait_for_new_nodes e total_wait_cycles min_ready_nodes original_nodes w =
     wait_for_new_nodes_loop e min_ready_nodes original_nodes total_wait_cycles w"

text \<open>\<open>timedelta(days=d)\<close>, in microseconds: a magnitude above 999999999 days is
  refused with \<open>OverflowError\<close>.\<close>

definition timedelta :: "int \<Rightarrow> exn + int" where
  "timedelta d = (if \<bar>d\<bar> > 999999999 then Inl OverflowError else Inr (d * 86400000000))"

text \<open>\<open>is_node_older_than\<close>: \<open>now\<close> is the reading of \<open>datetime.now(timezone.utc)\<close> in
  microseconds since the epoch. The age is computed first (\<open>TypeError\<close> when the node
  has no creation timestamp), then the \<open>timedelta\<close> it is compared with.\<close>

definition is_node_older_than :: "int \<Rightarrow> node \<Rightarrow> int \<Rightarrow> exn + bool" where
  "is_node_older_than now n days =
     (if days = 0 then Inr True
      else
        (case creation_timestamp n of
           None \<Rightarrow> Inl TypeError
         | Some created \<Rightarrow>
             (let age = now - created
              in case timedelta (days + 1) of
                   Inl x \<Rightarrow> Inl x
                 | Inr limit \<Rightarrow> Inr (age > limit))))"

section \<open>cast\_api\_utils\<close>

text \<open>Python's truth value of an optional string: \<open>None\<close> and \<open>""\<close> are false.\<close>

definition truthy :: "string option \<Rightarrow> bool" where
  "truthy s = (case s of None \<Rightarrow> False | Some v \<Rightarrow> v \<noteq> [])"

text \<open>\<open>get_node_label_value\<close>: an \<open>ApiException\<close> of the read is logged and gives
  \<open>None\<close>.\<close>

definition get_node_label_value :: "env \<Rightarrow> string \<Rightarrow> string \<Rightarrow> world \<Rightarrow> (exn + string option) \<times> world" where
  "get_node_label_value e node_name label_key w =
     (case v1_read_node e node_name w of
        (Inl ApiException, w1) \<Rightarrow> (Inr None, w1)
      | (Inl x, w1) \<Rightarrow> (Inl x, w1)
      | (Inr n, w1) \<Rightarrow>
          (case nlabels n of
             None \<Rightarrow> (Inr None, w1)
           | Some ls \<Rightarrow>
               if ls \<noteq> [] \<and> map_of ls label_key \<noteq> None
               then (Inr (map_of ls label_key), w1)
               else (Inr None, w1)))"

text \<open>The four HTTP requests. \<open>requests.get\<close>/\<open>post\<close>, \<open>raise_for_status\<close> and
  \<open>response.json()\<close> are one step: the parsed body, or the exception raised.\<close>

definition http_get_node_templates :: "env \<Rightarrow> string \<Rightarrow> world \<Rightarrow> (exn + catalog) \<times> world" where
  "http_get_node_templates e cluster_id w =
     (let w1 = logged (GetNodeTemplates cluster_id) w in (get_node_templates e w1, w1))"

definition http_post_node :: "env \<Rightarrow> string \<Rightarrow> payload \<Rightarrow> world \<Rightarrow> (exn + string option) \<times> world" where
  "http_post_node e cluster_id body w =
     (let w1 = logged (PostNode cluster_id body) w in (post_node e w1, w1))"

definition http_post_node_drain :: "env \<Rightarrow> string \<Rightarrow> string \<Rightarrow> world \<Rightarrow> (exn + string option) \<times> world" where
  "http_post_node_drain e cluster_id node_id w =
     (let w1 = logged (PostNodeDrain cluster_id node_id) w in (post_node_drain e w1, w1))"

definition http_get_node :: "env \<Rightarrow> string \<Rightarrow> string \<Rightarrow> world \<Rightarrow> (exn + json) \<times> world" where
  "http_get_node e cluster_id node_id w =
     (let w1 = logged (GetNode cluster_id node_id) w in (get_node e w1, w1))"

text \<open>\<open>fetch_node_templates\<close>: \<open>{}\<close> on a \<open>RequestException\<close>.\<close>

definition fetch_node_templates :: "env \<Rightarrow> string \<Rightarrow> string \<Rightarrow> world \<Rightarrow> (exn + catalog) \<times> world" where
  "fetch_node_templates e cluster_id api_key w =
     (case http_get_node_templates e cluster_id w of
        (Inl RequestException, w1) \<Rightarrow> (Inr empty_catalog, w1)
      | (Inl x, w1) \<Rightarrow> (Inl x, w1)
      | (Inr c, w1) \<Rightarrow> (Inr c, w1))"

text \<open>\<open>find_node_template_details\<close>: the loop over \<open>node_templates.get('items', [])\<close>.
  \<open>item['template']\<close> is reached only after the name of \<open>item.get('template', {})\<close>
  equalled the string \<open>template_name\<close>, so the key is present there.\<close>

fun find_node_template_loop :: "item list \<Rightarrow> string \<Rightarrow> template" where
  "find_node_template_loop [] template_name = empty_template"
| "find_node_template_loop (it # rest) template_name =
     (if name (case template it of None \<Rightarrow> empty_template | Some t \<Rightarrow> t) = Some template_name
      then (case template it of None \<Rightarrow> empty_template | Some t \<Rightarrow> t)
      else find_node_template_loop rest template_name)"

definition find_node_template_details :: "catalog \<Rightarrow> string \<Rightarrow> template" where
  "find_node_template_details node_templates template_name =
     find_node_template_loop (case items node_templates of None \<Rightarrow> [] | Some l \<Rightarrow> l) template_name"

text \<open>\<open>add_node\<close>: the new node's id from the reply, \<open>None\<close> on a
  \<open>RequestException\<close>.\<close>

definition add_node :: "env \<Rightarrow> string \<Rightarrow> string \<Rightarrow> string \<Rightarrow> string \<Rightarrow> labels option \<Rightarrow> taint list option \<Rightarrow> world \<Rightarrow> (exn + string option) \<times> world" where
  "add_node e cluster_id api_key instance_type configuration_id labels taints w =
     (let payload0 = \<lparr>instanceType = instance_type, pconfigurationId = configuration_id,
                      kubernetesLabels = None, kubernetesTaints = None\<rparr>;
          payload1 = (if labels \<noteq> None then payload0\<lparr>kubernetesLabels := labels\<rparr> else payload0);
          payload2 = (if taints \<noteq> None then payload1\<lparr>kubernetesTaints := taints\<rparr> else payload1)
      in case http_post_node e cluster_id payload2 w of
           (Inl RequestException, w1) \<Rightarrow> (Inr None, w1)
         | (Inl x, w1) \<Rightarrow> (Inl x, w1)
         | (Inr node_id, w1) \<Rightarrow> (Inr node_id, w1))"

definition drain_cast_node_id :: "env \<Rightarrow> string \<Rightarrow> string \<Rightarrow> string \<Rightarrow> world \<Rightarrow> (exn + string option) \<times> world" where
  "drain_cast_node_id e cluster_id node_id api_key w =
     (case http_post_node_drain e cluster_id node_id w of
        (Inl RequestException, w1) \<Rightarrow> (Inr None, w1)
      | (Inl x, w1) \<Rightarrow> (Inl x, w1)
      | (Inr operation_id, w1) \<Rightarrow> (Inr operation_id, w1))"

text \<open>\<open>d.get(key, default)\<close> on a parsed JSON value: only a dict has \<open>get\<close>, anything
  else (a list, a string, a number, \<open>None\<close>) raises \<open>AttributeError\<close>.\<close>

definition dict_get :: "json \<Rightarrow> string \<Rightarrow> json \<Rightarrow> exn + json" where
  "dict_get d key dflt =
     (case d of
        JObj kvs \<Rightarrow> Inr (case map_of kvs key of None \<Rightarrow> dflt | Some v \<Rightarrow> v)
      | _ \<Rightarrow> Inl AttributeError)"

text \<open>The \<open>try\<close> block of \<open>wait_for_node_ready\<close>: \<open>Inr True\<close> when it returned \<open>True\<close>,
  \<open>Inr False\<close> when it fell through (phase not \<open>"ready"\<close>, or a \<open>RequestException\<close>
  that was logged). An \<open>AttributeError\<close> of
  \<open>node_data.get("state", {}).get("phase")\<close> is not a \<open>RequestException\<close> and leaves
  the function.\<close>

definition poll_node_phase :: "env \<Rightarrow> string \<Rightarrow> string \<Rightarrow> world \<Rightarrow> (exn + bool) \<times> world" where
  "poll_node_phase e cluster_id node_id w =
     (case http_get_node e cluster_id node_id w of
        (Inl RequestException, w1) \<Rightarrow> (Inr False, w1)
      | (Inl x, w1) \<Rightarrow> (Inl x, w1)
      | (Inr node_data, w1) \<Rightarrow>
          (case dict_get node_data ''state'' (JObj []) of
             Inl x \<Rightarrow> (Inl x, w1)
           | Inr node_state \<Rightarrow>
               (case dict_get node_state ''phase'' JNull of
                  Inl x \<Rightarrow> (Inl x, w1)
                | Inr node_phase \<Rightarrow>
                    if node_phase = JStr ''ready'' then (Inr True, w1) else (Inr False, w1))))"

function wait_for_node_ready_loop :: "env \<Rightarrow> string \<Rightarrow> string \<Rightarrow> string \<Rightarrow> real \<Rightarrow> int \<Rightarrow> int \<Rightarrow> int \<Rightarrow> world \<Rightarrow> (exn + bool) \<times> world" where
  "wait_for_node_ready_loop e cluster_id api_key node_id end_time retry_interval_seconds max_retries retries w =
     (case time_time e w of
        (t, w1) \<Rightarrow>
          if t < end_time then
            if retries \<ge> max_retries then (Inr False, w1)
            else
              (case poll_node_phase e cluster_id node_id w1 of
                 (Inl x, w2) \<Rightarrow> (Inl x, w2)
               | (Inr True, w2) \<Rightarrow> (Inr True, w2)
               | (Inr False, w2) \<Rightarrow>
                   (case time_sleep e retry_interval_seconds w2 of
                      (Inl x, w3) \<Rightarrow> (Inl x, w3)
                    | (Inr u, w3) \<Rightarrow>
                        wait_for_node_ready_loop e cluster_id api_key node_id end_time
                          retry_interval_seconds max_retries (retries + 1) w3))
          else (Inr False, w1))"
  by pat_completeness auto
termination
  by (relation "measure (\<lambda>(e, c, a, n, t, i, max_retries, retries, w). nat (max_retries - retries))") auto

definition wait_for_node_ready :: "env \<Rightarrow> string \<Rightarrow> string \<Rightarrow> string \<Rightarrow> int \<Rightarrow> int \<Rightarrow> int \<Rightarrow> world \<Rightarrow> (exn + bool) \<times> world" where
  "wait_for_node_ready e cluster_id api_key node_id timeout_minutes retry_interval_seconds max_retries w =
     (case time_time e w of
        (start_time, w1) \<Rightarrow>
          (let end_time = start_time + real_of_int (timeout_minutes * 60)
           in wait_for_node_ready_loop e cluster_id api_key node_id end_time
                retry_interval_seconds max_retries 0 w1))"

text \<open>Lines 193 to 203 of \<open>rotate_node\<close>: the configuration id, the taints and the
  labels taken from the node's template, each \<open>None\<close> unless the node names a
  template and the catalog has it.\<close>

definition template_overrides :: "catalog \<Rightarrow> string option \<Rightarrow> string option \<times> taint list option \<times> labels option" where
  "template_overrides node_templates scheduling_node_template =
     (case scheduling_node_template of
        None \<Rightarrow> (None, None, None)
      | Some t \<Rightarrow>
          if t \<noteq> [] then
            (let template_details = find_node_template_details node_templates t
             in if template_details \<noteq> empty_template then
                  (configurationId template_details,
                   Some (case customTaints template_details of None \<Rightarrow> [] | Some ts \<Rightarrow> ts),
                   Some (AList.update ''scheduling.cast.ai/node-template'' t
                           (case customLabels template_details of None \<Rightarrow> [] | Some ls \<Rightarrow> ls)))
                else (None, None, None))
          else (None, None, None))"

text \<open>The retry loop of \<open>rotate_node\<close>. The guard
  \<open>instance_type and node_configuration_id is not None\<close> stands inside the loop: an
  iteration whose guard fails only counts.\<close>

function rotate_node_loop :: "env \<Rightarrow> string \<Rightarrow> string \<Rightarrow> string option \<Rightarrow> string option \<Rightarrow> labels option \<Rightarrow> taint list option \<Rightarrow> int \<Rightarrow> int \<Rightarrow> world \<Rightarrow> (exn + string option) \<times> world" where
  "rotate_node_loop e cluster_id api_key instance_type node_configuration_id node_template_labels
       node_template_tolerations max_retries retry_count w =
     (if retry_count < max_retries then
        (case (instance_type, node_configuration_id) of
           (Some it, Some cid) \<Rightarrow>
             if it \<noteq> [] then
               (case add_node e cluster_id api_key it cid node_template_labels node_template_tolerations w of
                  (Inl x, w1) \<Rightarrow> (Inl x, w1)
                | (Inr None, w1) \<Rightarrow>
                    rotate_node_loop e cluster_id api_key instance_type node_configuration_id
                      node_template_labels node_template_tolerations max_retries (retry_count + 1) w1
                | (Inr (Some new_node_id), w1) \<Rightarrow>
                    if new_node_id \<noteq> [] then
                      (case wait_for_node_ready e cluster_id api_key new_node_id 7 30 20 w1 of
                         (Inl x, w2) \<Rightarrow> (Inl x, w2)
                       | (Inr True, w2) \<Rightarrow> (Inr (Some new_node_id), w2)
                       | (Inr False, w2) \<Rightarrow>
                           rotate_node_loop e cluster_id api_key instance_type node_configuration_id
                             node_template_labels node_template_tolerations max_retries (retry_count + 1) w2)
                    else
                      rotate_node_loop e cluster_id api_key instance_type node_configuration_id
                        node_template_labels node_template_tolerations max_retries (retry_count + 1) w1)
             else
               rotate_node_loop e cluster_id api_key instance_type node_configuration_id
                 node_template_labels node_template_tolerations max_retries (retry_count + 1) w
         | _ \<Rightarrow>
             rotate_node_loop e cluster_id api_key instance_type node_configuration_id
               node_template_labels node_template_tolerations max_retries (retry_count + 1) w)
      else (Inr None, w))"
  by pat_completeness auto
termination
  by (relation "measure (\<lambda>(e, c, a, it, cid, ls, ts, max_retries, retry_count, w). nat (max_retries - retry_count))") auto

text \<open>Modelled from the spec: \<open>config.load_config()\<close> belongs to \<^verbatim>\<open>config\<close>, which is
  not among the sources. The specification puts environment and configuration loading
  outside the rotation engine, as a collaborator that supplies constants: it makes no
  external call and leaves the cluster alone.\<close>

definition load_config :: "world \<Rightarrow> world" where
  "load_config w = w"

definition rotate_node :: "env \<Rightarrow> string \<Rightarrow> string \<Rightarrow> string \<Rightarrow> world \<Rightarrow> (exn + string option) \<times> world" where
  "rotate_node e node_name cluster_id api_key w =
     (case get_node_label_value e node_name ''provisioner.cast.ai/node-id'' (load_config w) of
        (Inl x, w1) \<Rightarrow> (Inl x, w1)
      | (Inr provisioner_node_id, w1) \<Rightarrow>
     (case get_node_label_value e node_name ''scheduling.cast.ai/node-template'' w1 of
        (Inl x, w2) \<Rightarrow> (Inl x, w2)
      | (Inr scheduling_node_template, w2) \<Rightarrow>
     (case get_node_label_value e node_name ''node.kubernetes.io/instance-type'' w2 of
        (Inl x, w3) \<Rightarrow> (Inl x, w3)
      | (Inr instance_type, w3) \<Rightarrow>
     (case fetch_node_templates e cluster_id api_key w3 of
        (Inl x, w4) \<Rightarrow> (Inl x, w4)
      | (Inr node_templates, w4) \<Rightarrow>
          (case template_overrides node_templates scheduling_node_template of
             (node_configuration_id, node_template_tolerations, node_template_labels) \<Rightarrow>
               rotate_node_loop e cluster_id api_key instance_type node_configuration_id
                 node_template_labels node_template_tolerations 3 0 w4)))))"

section \<open>Vocabulary of the properties\<close>

text \<open>The label pair an entry \<open>key=value\<close> of the critical-workload list stands for
  when it is cut at its first \<open>=\<close>, and whether a pod carries that pair.\<close>

definition label_key_of :: "string \<Rightarrow> string" where
  "label_key_of l = takeWhile (\<lambda>c. c \<noteq> CHR ''='') l"

definition label_value_of :: "string \<Rightarrow> string" where
  "label_value_of l = tl (dropWhile (\<lambda>c. c \<noteq> CHR ''='') l)"

definition carries :: "pod \<Rightarrow> string \<Rightarrow> bool" where
  "carries p l =
     (case plabels p of
        None \<Rightarrow> False
      | Some ls \<Rightarrow> map_of ls (label_key_of l) = Some (label_value_of l))"

text \<open>The Kubernetes client raises nothing but \<open>ApiException\<close>; the API accepts
  every call.\<close>

definition only_api_exceptions :: "env \<Rightarrow> bool" where
  "only_api_exceptions e = (\<forall>w. api_fault e w = None \<or> api_fault e w = Some ApiException)"

definition no_api_faults :: "env \<Rightarrow> bool" where
  "no_api_faults e = (\<forall>w. api_fault e w = None)"

text \<open>The nodes of the cluster after the API accepted a patch of the node named.\<close>

definition patched :: "string \<Rightarrow> patch \<Rightarrow> node list \<Rightarrow> node list" where
  "patched node_name body ns = map (\<lambda>n. if nname n = node_name then apply_patch body n else n) ns"

text \<open>What one status request comes to, from the reply alone: a \<open>RequestException\<close>
  and a phase other than the string \<open>ready\<close> fall through to the sleep (\<open>Inr False\<close>),
  the phase \<open>ready\<close> ends the wait (\<open>Inr True\<close>), and any other exception, or a reply
  on which \<open>node_data.get("state", {}).get("phase")\<close> has no \<open>get\<close>, is raised.\<close>

definition reply_phase :: "json \<Rightarrow> exn + json" where
  "reply_phase d =
     (case dict_get d ''state'' (JObj []) of
        Inl x \<Rightarrow> Inl x
      | Inr st \<Rightarrow> dict_get st ''phase'' JNull)"

definition poll_verdict :: "exn + json \<Rightarrow> exn + bool" where
  "poll_verdict reply =
     (case reply of
        Inl x \<Rightarrow> if x = RequestException then Inr False else Inl x
      | Inr d \<Rightarrow> (case reply_phase d of Inl x \<Rightarrow> Inl x | Inr p \<Rightarrow> Inr (p = JStr ''ready'')))"

text \<open>Kinds of calls, and the calls a readiness wait may issue.\<close>

fun is_GetNode :: "call \<Rightarrow> bool" where
  "is_GetNode (GetNode c n) = True"
| "is_GetNode other = False"

definition polling_call :: "string \<Rightarrow> string \<Rightarrow> int \<Rightarrow> call \<Rightarrow> bool" where
  "polling_call cluster_id node_id secs c = (c = GetNode cluster_id node_id \<or> c = TimeTime \<or> c = TimeSleep secs)"

text \<open>No status request raises: every reply is a \<open>RequestException\<close> or a value
  on which the phase can be read.\<close>

definition polls_never_raise :: "env \<Rightarrow> bool" where
  "polls_never_raise e = (\<forall>w. \<exists>b. poll_verdict (get_node e w) = Inr b)"

text \<open>The world after a \<open>time.sleep\<close> that was accepted.\<close>

definition after_sleep :: "env \<Rightarrow> int \<Rightarrow> world \<Rightarrow> world" where
  "after_sleep e secs w =
     (logged (TimeSleep secs) w)\<lparr>nodes := fst (elapse e (logged (TimeSleep secs) w)),
                              pods := snd (elapse e (logged (TimeSleep secs) w))\<rparr>"

text \<open>The reply to the status request made from world \<open>v\<close>.\<close>

definition status_reply :: "env \<Rightarrow> string \<Rightarrow> string \<Rightarrow> world \<Rightarrow> exn + json" where
  "status_reply e cluster_id node_id v = get_node e (logged (GetNode cluster_id node_id) v)"


fun is_PostNode :: "call \<Rightarrow> bool" where
  "is_PostNode (PostNode c p) = True"
| "is_PostNode other = False"

text \<open>The calls of the provisioning loop: create node, node status, clock, sleep.\<close>

fun provisioning_call :: "call \<Rightarrow> bool" where
  "provisioning_call (PostNode c p) = True"
| "provisioning_call (GetNode c n) = True"
| "provisioning_call TimeTime = True"
| "provisioning_call (TimeSleep s) = True"
| "provisioning_call other = False"

text \<open>The calls that change a node: a patch (cordon, uncordon, label), a
  \<open>kubectl drain\<close>, a drain through the CAST AI API.\<close>

fun mutating_call :: "call \<Rightarrow> bool" where
  "mutating_call (PatchNode n b) = True"
| "mutating_call (KubectlDrain n t) = True"
| "mutating_call (PostNodeDrain c n) = True"
| "mutating_call other = False"

text \<open>The calls that reach the cluster: the Kubernetes API and \<open>kubectl\<close>.\<close>

fun kubernetes_call :: "call \<Rightarrow> bool" where
  "kubernetes_call (ReadNode n) = True"
| "kubernetes_call (PatchNode n b) = True"
| "kubernetes_call ListNode = True"
| "kubernetes_call (ListPodForAllNamespaces n) = True"
| "kubernetes_call (KubectlDrain n t) = True"
| "kubernetes_call other = False"

text \<open>The guard of the retry loop of \<open>rotate_node\<close>:
  \<open>instance_type and node_configuration_id is not None\<close>.\<close>

definition provisionable :: "string option \<Rightarrow> string option \<Rightarrow> bool" where
  "provisionable instance_type node_configuration_id =
     (truthy instance_type \<and> node_configuration_id \<noteq> None)"

text \<open>The body \<open>add_node\<close> posts.\<close>

definition add_node_payload :: "string \<Rightarrow> string \<Rightarrow> labels option \<Rightarrow> taint list option \<Rightarrow> payload" where
  "add_node_payload instance_type configuration_id ls ts =
     \<lparr>instanceType = instance_type, pconfigurationId = configuration_id,
      kubernetesLabels = ls, kubernetesTaints = ts\<rparr>"

text \<open>One provisioning attempt of the rotation, made from world \<open>v\<close>: the
  create-node request and, when it gave a non-empty node id, the readiness wait for
  that node. The attempt succeeds with the node id (\<open>Inr (Some id)\<close>) when the wait
  returned true; it fails (\<open>Inr None\<close>) when the request raised a \<open>RequestException\<close>,
  gave no id or an empty one, or the wait returned false; otherwise it raises.\<close>

definition attempt :: "env \<Rightarrow> string \<Rightarrow> string \<Rightarrow> payload \<Rightarrow> world \<Rightarrow> (exn + string option) \<times> world" where
  "attempt e cluster_id api_key body v =
     (case post_node e (logged (PostNode cluster_id body) v) of
        Inl x \<Rightarrow>
          if x = RequestException then (Inr None, logged (PostNode cluster_id body) v)
          else (Inl x, logged (PostNode cluster_id body) v)
      | Inr None \<Rightarrow> (Inr None, logged (PostNode cluster_id body) v)
      | Inr (Some new_node_id) \<Rightarrow>
          if new_node_id = [] then (Inr None, logged (PostNode cluster_id body) v)
          else
            (case wait_for_node_ready e cluster_id api_key new_node_id 7 30 20
                    (logged (PostNode cluster_id body) v) of
               (Inl x, v2) \<Rightarrow> (Inl x, v2)
             | (Inr ready, v2) \<Rightarrow> (if ready then Inr (Some new_node_id) else Inr None, v2)))"


text \<open>The world after the three label reads that open \<open>rotate_node\<close>.\<close>

definition label_reads :: "string \<Rightarrow> world \<Rightarrow> world" where
  "label_reads node_name w = logged (ReadNode node_name) (logged (ReadNode node_name) (logged (ReadNode node_name) w))"

section \<open>Example environments and worlds\<close>

text \<open>An environment in which nothing fails and nothing moves.\<close>

definition calm :: env where
  "calm = \<lparr>api_fault = (\<lambda>w. None),
           subprocess_run = (\<lambda>w. (None, nodes w, pods w)),
           elapse = (\<lambda>w. (nodes w, pods w)),
           clock = (\<lambda>w. 0),
           get_node_templates = (\<lambda>w. Inr empty_catalog),
           post_node = (\<lambda>w. Inr None),
           post_node_drain = (\<lambda>w. Inr None),
           get_node = (\<lambda>w. Inr (JObj []))\<rparr>"

definition empty_world :: world where
  "empty_world = \<lparr>nodes = [], pods = [], history = []\<rparr>"

text \<open>A cluster with one pod, on node \<open>n1\<close>, with the given label map.\<close>

definition one_pod_world :: "labels option \<Rightarrow> world" where
  "one_pod_world ls = \<lparr>nodes = [], pods = [\<lparr>pname = ''p1'', plabels = ls, pnode = ''n1''\<rparr>], history = []\<rparr>"

text \<open>A cluster whose only node, \<open>fresh\<close>, has no condition of type \<open>Ready\<close>.\<close>

definition fresh_node :: node where
  "fresh_node = \<lparr>nname = ''fresh'', nlabels = None, unschedulable = False,
                  conditions = Some [\<lparr>ctype = ''MemoryPressure'', cstatus = ''False''\<rparr>],
                  creation_timestamp = Some 0\<rparr>"

definition fresh_world :: world where
  "fresh_world = \<lparr>nodes = [fresh_node], pods = [], history = []\<rparr>"



text \<open>Drains: \<open>kubectl drain\<close> cordons the node and then times out (\<open>timing_out\<close>);
  the same with every patch rejected by the API (\<open>api_rejecting\<close>); \<open>kubectl\<close> exits
  with an error (\<open>kubectl_failing\<close>). The cluster has the node \<open>n1\<close> with one pod on
  it, and a pod elsewhere.\<close>

definition timing_out :: env where
  "timing_out = calm\<lparr>subprocess_run :=
     (\<lambda>w. (Some TimeoutExpired, map (\<lambda>n. n\<lparr>unschedulable := True\<rparr>) (nodes w), pods w))\<rparr>"

definition api_rejecting :: env where
  "api_rejecting = timing_out\<lparr>api_fault :=
     (\<lambda>w. case last (history w) of PatchNode n b \<Rightarrow> Some ApiException | _ \<Rightarrow> None)\<rparr>"

definition kubectl_failing :: env where
  "kubectl_failing = calm\<lparr>subprocess_run :=
     (\<lambda>w. (Some (OtherException ''CalledProcessError''), nodes w, pods w))\<rparr>"

definition pod1 :: pod where
  "pod1 = \<lparr>pname = ''p1'', plabels = None, pnode = ''n1''\<rparr>"

definition drain_world :: world where
  "drain_world =
     \<lparr>nodes = [\<lparr>nname = ''n1'', nlabels = None, unschedulable = False, conditions = Some [],
                creation_timestamp = Some 0\<rparr>],
      pods = [pod1, \<lparr>pname = ''p2'', plabels = None, pnode = ''n2''\<rparr>],
      history = []\<rparr>"






text \<open>Rotations: the node \<open>n1\<close> with a given label set; a catalog whose only template
  is \<open>t1\<close>; a provisioning service that creates \<open>node-2\<close> and reports it ready at the
  second status request (\<open>provisioner_up\<close>), one whose first create-node request
  fails and whose second creates \<open>node-2\<close>, ready at once (\<open>provisioner_flaky\<close>), and
  one whose create-node request always fails (\<open>provisioner_down\<close>).\<close>

definition labelled_node :: "labels \<Rightarrow> node" where
  "labelled_node ls = \<lparr>nname = ''n1'', nlabels = Some ls, unschedulable = False,
                        conditions = Some [], creation_timestamp = Some 0\<rparr>"

definition rotation_world :: "labels \<Rightarrow> world" where
  "rotation_world ls = \<lparr>nodes = [labelled_node ls], pods = [], history = []\<rparr>"

definition t1_labels :: labels where
  "t1_labels = [(''provisioner.cast.ai/node-id'', ''id-1''),
                (''scheduling.cast.ai/node-template'', ''t1''),
                (''node.kubernetes.io/instance-type'', ''m5.large'')]"



definition t1_catalog :: catalog where
  "t1_catalog = \<lparr>items = Some [\<lparr>template = Some \<lparr>name = Some ''t1'', configurationId = Some ''c1'',
                                   customTaints = Some [], customLabels = Some []\<rparr>\<rparr>]\<rparr>"



definition provisioner_down :: env where
  "provisioner_down = calm\<lparr>get_node_templates := (\<lambda>w. Inr t1_catalog),
                            post_node := (\<lambda>w. Inl RequestException)\<rparr>"

section \<open>Properties\<close>

text \<open>The loops are unfolded one iteration at a time, by hand.\<close>

declare wait_for_new_nodes_loop.simps [simp del]
declare wait_for_node_ready_loop.simps [simp del]
declare rotate_node_loop.simps [simp del]

subsection \<open>The history and the external calls\<close>

lemma history_log [simp]: "history (logged c w) = history w @ [c]"
  by (simp add: logged_def)

lemma nodes_log [simp]: "nodes (logged c w) = nodes w"
  by (simp add: logged_def)

lemma pods_log [simp]: "pods (logged c w) = pods w"
  by (simp add: logged_def)

lemma issued_self [simp]: "issued w w = []"
  by (simp add: issued_def)

lemma issued_append: "history w' = history w @ cs \<Longrightarrow> issued w w' = cs"
  by (simp add: issued_def)

lemma list_pods_ok:
  "api_fault e (logged (ListPodForAllNamespaces node_name) w) = None \<Longrightarrow>
   v1_list_pod_for_all_namespaces e node_name w =
     (Inr (pods_on node_name w), logged (ListPodForAllNamespaces node_name) w)"
  by (simp add: v1_list_pod_for_all_namespaces_def Let_def pods_on_def)


lemma v1_list_node_cases:
  "v1_list_node e w = (r, w') \<Longrightarrow>
   w' = logged ListNode w \<and> (r = Inr (nodes w) \<or> (\<exists>x. r = Inl x))"
  by (auto simp: v1_list_node_def Let_def split: option.splits)

lemma time_sleep_cases:
  "time_sleep e secs w = (r, w') \<Longrightarrow>
   (secs < 0 \<and> r = Inl ValueError \<and> w' = w)
   \<or> (0 \<le> secs \<and> r = Inr () \<and> history w' = history w @ [TimeSleep secs])"
  by (auto simp: time_sleep_def Let_def split: if_splits)

subsection \<open>Staleness\<close>

text \<open>C8, as the code has it: \<open>is_node_older_than\<close> returns true when \<open>days\<close> is 0,
  whatever the node's creation time. Otherwise, for a node that has a creation
  timestamp and \<open>days + 1\<close> of magnitude at most 999999999, it returns true exactly when
  the node's age, \<open>now\<close> minus the creation timestamp, exceeds \<open>days + 1\<close> days
  (86400000000 microseconds each); for a larger \<open>days\<close> the construction of the
  \<open>timedelta\<close> raises \<open>OverflowError\<close>, and for a node without a creation timestamp the
  subtraction raises \<open>TypeError\<close>.\<close>

theorem is_node_older_than_stale:
  "(days = 0 \<longrightarrow> is_node_older_than now n days = Inr True)
   \<and> (days \<noteq> 0 \<and> creation_timestamp n = Some created \<and> \<bar>days + 1\<bar> \<le> 999999999 \<longrightarrow>
        is_node_older_than now n days = Inr ((days + 1) * 86400000000 < now - created))
   \<and> (days \<noteq> 0 \<and> creation_timestamp n = Some created \<and> 999999999 < \<bar>days + 1\<bar> \<longrightarrow>
        is_node_older_than now n days = Inl OverflowError)
   \<and> (days \<noteq> 0 \<and> creation_timestamp n = None \<longrightarrow>
        is_node_older_than now n days = Inl TypeError)"
  by (simp add: is_node_older_than_def timedelta_def)

theorem is_node_older_than_stale_witness:
  "creation_timestamp fresh_node = Some 0
   \<and> is_node_older_than 0 (fresh_node\<lparr>creation_timestamp := None\<rparr>) 0 = Inr True
   \<and> is_node_older_than (4 * 86400000000) fresh_node 2 = Inr True
   \<and> is_node_older_than (3 * 86400000000) fresh_node 2 = Inr False
   \<and> is_node_older_than (4 * 86400000000) fresh_node 999999998 = Inr False"
  using is_node_older_than_stale[of 0 0 "fresh_node\<lparr>creation_timestamp := None\<rparr>" 0]
        is_node_older_than_stale[of 2 "4 * 86400000000" fresh_node 0]
        is_node_older_than_stale[of 2 "3 * 86400000000" fresh_node 0]
        is_node_older_than_stale[of 999999998 "4 * 86400000000" fresh_node 0]
  by (simp add: fresh_node_def)

text \<open>C8 as stated fails: \<open>days = 999999999\<close> is not negative and the call raises
  \<open>OverflowError\<close> instead of returning a boolean; and a node without a creation
  timestamp makes the call raise \<open>TypeError\<close> for every \<open>days\<close> but 0.\<close>

theorem is_node_older_than_overflow_counterexample:
  "(0::int) \<le> 999999999
   \<and> is_node_older_than (4 * 86400000000) fresh_node 999999999 = Inl OverflowError
   \<and> is_node_older_than (4 * 86400000000) (fresh_node\<lparr>creation_timestamp := None\<rparr>) 1 = Inl TypeError"
  by (simp add: is_node_older_than_def timedelta_def fresh_node_def)

subsection \<open>Critical workloads\<close>

lemma py_split_not_Nil: "py_split sep s \<noteq> []"
  by (induction s) auto

lemma length_py_split: "length (py_split sep s) = Suc (count_list s sep)"
  by (induction s) (auto simp: py_split_not_Nil)

lemma py_split_no_sep: "count_list s sep = 0 \<Longrightarrow> py_split sep s = [s]"
  by (induction s) (auto split: if_splits)

lemma py_split_one_sep:
  "count_list s sep = 1 \<Longrightarrow>
   py_split sep s = [takeWhile (\<lambda>c. c \<noteq> sep) s, tl (dropWhile (\<lambda>c. c \<noteq> sep) s)]"
  by (induction s) (auto split: if_splits simp: py_split_no_sep)

lemma unpack2_Inr_iff: "(\<exists>kv. unpack2 parts = Inr kv) \<longleftrightarrow> length parts = 2"
  by (cases parts rule: unpack2.cases) auto

lemma unpack2_cases: "unpack2 parts = Inl ValueError \<or> (\<exists>kv. unpack2 parts = Inr kv)"
  by (cases parts rule: unpack2.cases) auto

lemma unpack2_split_wellformed:
  "count_list l CHR ''='' = 1 \<Longrightarrow>
   unpack2 (py_split CHR ''='' l) = Inr (label_key_of l, label_value_of l)"
  by (simp add: py_split_one_sep label_key_of_def label_value_of_def)

lemma unpack2_split_malformed:
  "count_list l CHR ''='' \<noteq> 1 \<Longrightarrow> unpack2 (py_split CHR ''='' l) = Inl ValueError"
  using unpack2_Inr_iff[of "py_split CHR ''='' l"] unpack2_cases[of "py_split CHR ''='' l"]
  by (auto simp: length_py_split)



lemma critical_labels_loop_False:
  "critical_labels_loop p cw = Inr False \<Longrightarrow>
   list_all (\<lambda>l. count_list l CHR ''='' = 1) cw \<and> (cw \<noteq> [] \<longrightarrow> plabels p \<noteq> None)"
proof (induction cw)
  case Nil
  then show ?case by simp
next
  case (Cons l rest)
  show ?case
  proof (cases "count_list l CHR ''='' = 1")
    case False
    with Cons.prems show ?thesis by (simp add: unpack2_split_malformed)
  next
    case True
    with Cons show ?thesis
      by (auto simp: unpack2_split_wellformed split: option.splits if_splits)
  qed
qed

lemma critical_pods_loop_False:
  "critical_pods_loop ps cw = Inr False \<Longrightarrow>
   list_all (\<lambda>p. critical_labels_loop p cw = Inr False) ps"
  by (induction ps) (auto split: sum.splits bool.splits if_splits)

lemma critical_labels_loop_range:
  "critical_labels_loop p cw \<in> {Inr True, Inr False, Inl ValueError, Inl AttributeError}"
proof (induction cw)
  case Nil
  then show ?case by simp
next
  case (Cons l rest)
  then show ?case
    using unpack2_cases[of "py_split CHR ''='' l"]
    by (auto split: option.splits if_splits)
qed

lemma critical_pods_loop_range:
  "critical_pods_loop ps cw \<in> {Inr True, Inr False, Inl ValueError, Inl AttributeError}"
proof (induction ps)
  case Nil
  then show ?case by simp
next
  case (Cons p rest)
  then show ?case
    using critical_labels_loop_range[of p cw]
    by (auto split: sum.splits bool.splits)
qed

lemma critical_labels_loop_True:
  "critical_labels_loop p cw = Inr True \<Longrightarrow>
   \<exists>l \<in> set cw. count_list l CHR ''='' = 1 \<and> carries p l"
proof (induction cw)
  case Nil
  then show ?case by simp
next
  case (Cons l rest)
  show ?case
  proof (cases "count_list l CHR ''='' = 1")
    case False
    with Cons.prems show ?thesis by (simp add: unpack2_split_malformed)
  next
    case True
    with Cons show ?thesis
      by (auto simp: unpack2_split_wellformed carries_def split: option.splits if_splits)
  qed
qed

lemma critical_pods_loop_True:
  "critical_pods_loop ps cw = Inr True \<Longrightarrow>
   \<exists>p \<in> set ps. \<exists>l \<in> set cw. count_list l CHR ''='' = 1 \<and> carries p l"
proof (induction ps)
  case Nil
  then show ?case by simp
next
  case (Cons p rest)
  show ?case
  proof (cases "critical_labels_loop p cw = Inr True")
    case True
    from critical_labels_loop_True[OF this] show ?thesis by auto
  next
    case False
    with Cons.prems have "critical_pods_loop rest cw = Inr True"
      by (auto split: sum.splits bool.splits)
    from Cons.IH[OF this] show ?thesis by auto
  qed
qed




text \<open>C10, as the code has it: when the pods of the node are listed without a fault,
  the call does not return false but raises \<open>ValueError\<close> or \<open>AttributeError\<close> (or
  returns true, when a pair examined earlier matched) if the node has at least one pod
  and some entry does not contain exactly one \<open>=\<close>, or if the list is not empty and
  some pod on the node has no label map; it raises whenever, in addition, no pod
  carries the pair of a well-formed entry. With no pod on the node, or with an empty
  list, nothing is examined and the call returns false.\<close>

theorem is_node_running_critical_pods_raises:
  assumes "api_fault e (logged (ListPodForAllNamespaces node_name) w) = None"
  shows "((pods_on node_name w \<noteq> [] \<and> list_ex (\<lambda>l. count_list l CHR ''='' \<noteq> 1) critical_workloads)
           \<or> (critical_workloads \<noteq> [] \<and> list_ex (\<lambda>p. plabels p = None) (pods_on node_name w))
          \<longrightarrow> fst (is_node_running_critical_pods e critical_workloads node_name w)
                \<in> {Inr True, Inl ValueError, Inl AttributeError}
            \<and> (list_all (\<lambda>p. list_all (\<lambda>l. count_list l CHR ''='' = 1 \<longrightarrow> \<not> carries p l) critical_workloads)
                  (pods_on node_name w)
                \<longrightarrow> fst (is_node_running_critical_pods e critical_workloads node_name w)
                      \<in> {Inl ValueError, Inl AttributeError}))
       \<and> (pods_on node_name w = [] \<or> critical_workloads = []
          \<longrightarrow> fst (is_node_running_critical_pods e critical_workloads node_name w) = Inr False)"
proof -
  let ?ps = "pods_on node_name w"
  let ?r = "critical_pods_loop ?ps critical_workloads"
  have r: "fst (is_node_running_critical_pods e critical_workloads node_name w) = ?r"
    using assms by (simp add: is_node_running_critical_pods_def list_pods_ok)
  have empty_list: "critical_pods_loop qs [] = Inr False" for qs
    by (induction qs) auto
  have part2: "?ps = [] \<or> critical_workloads = [] \<longrightarrow> ?r = Inr False"
    by (auto simp: empty_list)
  have part1: "?r \<in> {Inr True, Inl ValueError, Inl AttributeError}
      \<and> (list_all (\<lambda>p. list_all (\<lambda>l. count_list l CHR ''='' = 1 \<longrightarrow> \<not> carries p l) critical_workloads) ?ps
           \<longrightarrow> ?r \<in> {Inl ValueError, Inl AttributeError})"
    if bad: "(?ps \<noteq> [] \<and> list_ex (\<lambda>l. count_list l CHR ''='' \<noteq> 1) critical_workloads)
           \<or> (critical_workloads \<noteq> [] \<and> list_ex (\<lambda>p. plabels p = None) ?ps)"
  proof -
    have "?r \<noteq> Inr False"
    proof
      assume f: "?r = Inr False"
      have all: "\<forall>p \<in> set ?ps. critical_labels_loop p critical_workloads = Inr False"
        using critical_pods_loop_False[OF f] by (simp add: list_all_iff)
      from bad show False
      proof
        assume a: "?ps \<noteq> [] \<and> list_ex (\<lambda>l. count_list l CHR ''='' \<noteq> 1) critical_workloads"
        then obtain p where "p \<in> set ?ps" by (cases ?ps) auto
        with all have "critical_labels_loop p critical_workloads = Inr False" by blast
        from critical_labels_loop_False[OF this] a show False
          by (auto simp: list_all_iff list_ex_iff)
      next
        assume a: "critical_workloads \<noteq> [] \<and> list_ex (\<lambda>p. plabels p = None) ?ps"
        then obtain p where p: "p \<in> set ?ps" "plabels p = None" by (auto simp: list_ex_iff)
        with all have "critical_labels_loop p critical_workloads = Inr False" by blast
        from critical_labels_loop_False[OF this] a p show False by auto
      qed
    qed
    with critical_pods_loop_range[of ?ps critical_workloads]
    have g1: "?r \<in> {Inr True, Inl ValueError, Inl AttributeError}" by auto
    have "?r \<noteq> Inr True"
      if "list_all (\<lambda>p. list_all (\<lambda>l. count_list l CHR ''='' = 1 \<longrightarrow> \<not> carries p l) critical_workloads) ?ps"
      using that critical_pods_loop_True[of ?ps critical_workloads] by (auto simp: list_all_iff)
    with g1 show ?thesis by auto
  qed
  from part1 part2 show ?thesis unfolding r by blast
qed

theorem is_node_running_critical_pods_raises_witness:
  "api_fault calm (logged (ListPodForAllNamespaces ''n1'') (one_pod_world (Some [(''tier'', ''db'')]))) = None
   \<and> pods_on ''n1'' (one_pod_world (Some [(''tier'', ''db'')])) \<noteq> []
   \<and> list_ex (\<lambda>l. count_list l CHR ''='' \<noteq> 1) [''app=web'', ''tier'']
   \<and> fst (is_node_running_critical_pods calm [''app=web'', ''tier''] ''n1''
            (one_pod_world (Some [(''tier'', ''db'')]))) = Inl ValueError"
  using is_node_running_critical_pods_raises
          [of calm "''n1''" "one_pod_world (Some [(''tier'', ''db'')])" "[''app=web'', ''tier'']"]
  by (simp add: calm_def one_pod_world_def pods_on_def carries_def label_key_of_def label_value_of_def
        is_node_running_critical_pods_def v1_list_pod_for_all_namespaces_def logged_def Let_def)

text \<open>C10 as stated fails: with no pod on the node an entry without \<open>=\<close> is never
  split, and with an empty list a pod without a label map is never examined; both
  calls return false.\<close>

theorem is_node_running_critical_pods_unexamined_counterexample:
  "count_list ''tier'' CHR ''='' \<noteq> 1
   \<and> fst (is_node_running_critical_pods calm [''tier''] ''n1'' empty_world) = Inr False
   \<and> fst (is_node_running_critical_pods calm [] ''n1'' (one_pod_world None)) = Inr False"
  by (simp add: is_node_running_critical_pods_def v1_list_pod_for_all_namespaces_def calm_def
        logged_def pods_on_def one_pod_world_def empty_world_def Let_def)

subsection \<open>Waiting for new nodes\<close>

lemma ready_new_nodes_loop_raises:
  "list_ex (\<lambda>n. nname n \<in> set names \<and> conditions n = None) ns \<Longrightarrow>
   ready_new_nodes_loop names ns = Inl TypeError"
proof (induction ns)
  case Nil
  then show ?case by simp
next
  case (Cons n rest)
  show ?case
  proof (cases "nname n \<in> set names")
    case False
    with Cons show ?thesis by simp
  next
    case new: True
    show ?thesis
    proof (cases "conditions n")
      case None
      with new show ?thesis by simp
    next
      case (Some cs)
      with Cons new show ?thesis by simp
    qed
  qed
qed

lemma ready_new_nodes_loop_filter:
  "list_all (\<lambda>n. nname n \<in> set names \<longrightarrow> conditions n \<noteq> None) ns \<Longrightarrow>
   ready_new_nodes_loop names ns
     = Inr (filter (\<lambda>n. nname n \<in> set names \<and> conditions_ready (conditions n) = Inr True) ns)"
  by (induction ns) auto

lemma ready_new_nodes_loop_range:
  "ready_new_nodes_loop names ns = Inl TypeError
   \<or> ready_new_nodes_loop names ns
        = Inr (filter (\<lambda>n. nname n \<in> set names \<and> conditions_ready (conditions n) = Inr True) ns)"
proof (cases "list_ex (\<lambda>n. nname n \<in> set names \<and> conditions n = None) ns")
  case True
  then show ?thesis by (simp add: ready_new_nodes_loop_raises)
next
  case False
  then have "list_all (\<lambda>n. nname n \<in> set names \<longrightarrow> conditions n \<noteq> None) ns"
    by (auto simp: list_all_iff list_ex_iff)
  then show ?thesis by (simp add: ready_new_nodes_loop_filter)
qed


text \<open>What \<open>wait_for_new_nodes\<close> can return: \<open>None\<close>, an exception, or the names of
  the new nodes that pass the readiness filter in the listing it made last, at least
  \<open>MIN_READY_NODES\<close> of them.\<close>

lemma wait_for_new_nodes_loop_result:
  "wait_for_new_nodes_loop e m orig c w = (r, w') \<Longrightarrow>
   r = Inr None \<or> (\<exists>x. r = Inl x)
   \<or> (\<exists>rs. ready_new_nodes orig (nodes w') = Inr rs \<and> r = Inr (Some (map nname rs))
          \<and> m \<le> int (length rs))"
proof (induction e m orig c w rule: wait_for_new_nodes_loop.induct)
  case (1 e m orig c w)
  show ?case
  proof (cases "c > 0")
    case False
    with "1.prems" show ?thesis by (simp add: wait_for_new_nodes_loop.simps[of e m orig c w])
  next
    case pos: True
    obtain r1 w1 where l: "v1_list_node e w = (r1, w1)" by (cases "v1_list_node e w")
    from v1_list_node_cases[OF l]
    have w1: "w1 = logged ListNode w" and r1: "r1 = Inr (nodes w) \<or> (\<exists>x. r1 = Inl x)"
      by auto
    from r1 show ?thesis
    proof
      assume "\<exists>x. r1 = Inl x"
      with "1.prems" pos l show ?thesis
        by (auto simp: wait_for_new_nodes_loop.simps[of e m orig c w])
    next
      assume ok: "r1 = Inr (nodes w)"
      show ?thesis
      proof (cases "ready_new_nodes orig (nodes w)")
        case (Inl x)
        with "1.prems" pos l ok show ?thesis
          by (auto simp: wait_for_new_nodes_loop.simps[of e m orig c w])
      next
        case (Inr rs)
        show ?thesis
        proof (cases "m \<le> int (length rs)")
          case True
          with "1.prems" pos l ok w1 Inr show ?thesis
            by (auto simp: wait_for_new_nodes_loop.simps[of e m orig c w])
        next
          case few: False
          obtain r2 w2 where s: "time_sleep e 10 w1 = (r2, w2)" by (cases "time_sleep e 10 w1")
          from time_sleep_cases[OF s] have r2: "r2 = Inr ()" by auto
          from "1.prems" pos l ok few s r2 Inr
          have rec: "wait_for_new_nodes_loop e m orig (c - 1) w2 = (r, w')"
            by (simp add: wait_for_new_nodes_loop.simps[of e m orig c w])
          show ?thesis
            using "1.IH"[OF pos l[symmetric] _ _ few s[symmetric] _ rec] ok r2 Inr by simp
        qed
      qed
    qed
  qed
qed

lemma wait_for_new_nodes_never_empty:
  "1 \<le> min_ready_nodes \<Longrightarrow>
   fst (wait_for_new_nodes e total_wait_cycles min_ready_nodes original_nodes w) \<noteq> Inr (Some [])"
  using wait_for_new_nodes_loop_result
          [of e min_ready_nodes original_nodes total_wait_cycles w
              "fst (wait_for_new_nodes e total_wait_cycles min_ready_nodes original_nodes w)"
              "snd (wait_for_new_nodes e total_wait_cycles min_ready_nodes original_nodes w)"]
  by (auto simp: wait_for_new_nodes_def)

text \<open>C6, at an input where the budget runs out: one node, of the original set, is
  live for both cycles; no new node appears, and the call returns \<open>None\<close>, which is
  not the empty list \<open>Some []\<close>.\<close>

theorem wait_for_new_nodes_exhausted_returns_None:
  "fst (wait_for_new_nodes calm 2 1 [''fresh''] fresh_world) = Inr None
   \<and> fst (wait_for_new_nodes calm 2 1 [''fresh''] fresh_world) \<noteq> Inr (Some [])
   \<and> issued fresh_world (snd (wait_for_new_nodes calm 2 1 [''fresh''] fresh_world))
       = [ListNode, TimeSleep 10, ListNode, TimeSleep 10]"
  by code_simp




subsection \<open>Draining with a timeout\<close>

lemma v1_patch_node_cases:
  "v1_patch_node e n b w = (r, w') \<Longrightarrow>
   history w' = history w @ [PatchNode n b] \<and> pods w' = pods w
   \<and> ((r = Inr () \<and> api_fault e (logged (PatchNode n b) w) = None \<and> nodes w' = patched n b (nodes w))
       \<or> (r = Inl ApiException \<and> nodes w' = nodes w)
       \<or> (\<exists>x. r = Inl x \<and> x \<noteq> ApiException \<and> api_fault e (logged (PatchNode n b) w) = Some x \<and> nodes w' = nodes w))"
  by (cases "api_fault e (logged (PatchNode n b) w)")
     (auto simp: v1_patch_node_def Let_def patched_def split: if_splits)

lemma v1_patch_node_accepted:
  "api_fault e (logged (PatchNode n b) w) = None \<Longrightarrow> list_ex (\<lambda>x. nname x = n) (nodes w) \<Longrightarrow>
   v1_patch_node e n b w = (Inr (), (logged (PatchNode n b) w)\<lparr>nodes := patched n b (nodes w)\<rparr>)"
  by (simp add: v1_patch_node_def Let_def patched_def)

lemma swallow_cases:
  "(case (r, w') of (Inl ApiException, w1) \<Rightarrow> (Inr (), w1) | (Inl x, w1) \<Rightarrow> (Inl x, w1) | (Inr u, w1) \<Rightarrow> (Inr (), w1))
         = ((if r = Inl ApiException then Inr () else r), w')"
  by (cases r) (auto split: exn.splits)

lemma nname_apply_patch [simp]: "nname (apply_patch b x) = nname x"
  by (cases b) (simp_all add: apply_patch_def)

lemma list_ex_patched [simp]:
  "list_ex (\<lambda>x. nname x = n) (patched m b ns) = list_ex (\<lambda>x. nname x = n) ns"
  by (induction ns) (auto simp: patched_def)

lemma v1_patch_node_only_api:
  assumes "only_api_exceptions e" and "v1_patch_node e n b w = (r, w')"
  shows "(r = Inr () \<or> r = Inl ApiException) \<and> history w' = history w @ [PatchNode n b]"
  using assms(2) assms(1)[unfolded only_api_exceptions_def, rule_format, of "logged (PatchNode n b) w"]
  by (auto simp: v1_patch_node_def Let_def split: if_splits)

lemma label_node_eq:
  "label_node e n k v w =
     (let (r, w') = v1_patch_node e n (MetadataLabel k v) w in ((if r = Inl ApiException then Inr () else r), w'))"
  unfolding label_node_def
  by (cases "v1_patch_node e n (MetadataLabel k v) w") (auto split: sum.splits exn.splits)

lemma uncordon_node_eq:
  "uncordon_node e n w =
     (let (r, w') = v1_patch_node e n (SpecUnschedulable False) w in ((if r = Inl ApiException then Inr () else r), w'))"
  unfolding uncordon_node_def
  by (cases "v1_patch_node e n (SpecUnschedulable False) w") (auto split: sum.splits exn.splits)

lemma kubectl_drain_eq:
  "subprocess_run e (logged (KubectlDrain n t) w) = (r, ns, ps) \<Longrightarrow>
   kubectl_drain e n t w =
     ((case r of Some x \<Rightarrow> Inl x | None \<Rightarrow> Inr ()), (logged (KubectlDrain n t) w)\<lparr>nodes := ns, pods := ps\<rparr>)"
  by (simp add: kubectl_drain_def Let_def split: option.splits)

lemma drain_drained:
  assumes "subprocess_run e (logged (KubectlDrain n t) w) = (None, ns, ps)"
  shows "drain_node_with_timeout e n t w = (Inr None, (logged (KubectlDrain n t) w)\<lparr>nodes := ns, pods := ps\<rparr>)"
  by (simp add: drain_node_with_timeout_def kubectl_drain_eq[OF assms])

lemma drain_propagates:
  assumes "subprocess_run e (logged (KubectlDrain n t) w) = (Some x, ns, ps)" and "x \<noteq> TimeoutExpired"
  shows "drain_node_with_timeout e n t w = (Inl x, (logged (KubectlDrain n t) w)\<lparr>nodes := ns, pods := ps\<rparr>)"
  using assms(2) by (cases x) (simp_all add: drain_node_with_timeout_def kubectl_drain_eq[OF assms(1)])

lemma drain_timed_out:
  assumes run: "subprocess_run e (logged (KubectlDrain n t) w) = (Some TimeoutExpired, ns, ps)"
      and api: "only_api_exceptions e"
      and lst: "api_fault e (logged (ListPodForAllNamespaces n) ((logged (KubectlDrain n t) w)\<lparr>nodes := ns, pods := ps\<rparr>)) = None"
  shows "fst (drain_node_with_timeout e n t w) = Inr (Some (filter (\<lambda>p. pnode p = n) ps))
       \<and> issued w (snd (drain_node_with_timeout e n t w)) =
           [KubectlDrain n t, ListPodForAllNamespaces n,
            PatchNode n (MetadataLabel ''drain-status'' ''failed''), PatchNode n (SpecUnschedulable False)]"
proof -
  let ?w1 = "(logged (KubectlDrain n t) w)\<lparr>nodes := ns, pods := ps\<rparr>"
  let ?w2 = "logged (ListPodForAllNamespaces n) ?w1"
  obtain r3 w3 where p3: "v1_patch_node e n (MetadataLabel ''drain-status'' ''failed'') ?w2 = (r3, w3)"
    by (cases "v1_patch_node e n (MetadataLabel ''drain-status'' ''failed'') ?w2")
  obtain r4 w4 where p4: "v1_patch_node e n (SpecUnschedulable False) w3 = (r4, w4)"
    by (cases "v1_patch_node e n (SpecUnschedulable False) w3")
  from v1_patch_node_only_api[OF api p3]
  have r3: "r3 = Inr () \<or> r3 = Inl ApiException" and h3: "history w3 = history ?w2 @ [PatchNode n (MetadataLabel ''drain-status'' ''failed'')]"
    by auto
  from v1_patch_node_only_api[OF api p4]
  have r4: "r4 = Inr () \<or> r4 = Inl ApiException" and h4: "history w4 = history w3 @ [PatchNode n (SpecUnschedulable False)]"
    by auto
  have "drain_node_with_timeout e n t w = (Inr (Some (pods_on n ?w1)), w4)"
    using r3 r4
    by (auto simp: drain_node_with_timeout_def kubectl_drain_eq[OF run] dump_pods_on_node_def
          list_pods_ok[OF lst] label_node_eq uncordon_node_eq p3 p4)
  then show ?thesis
    using h3 h4 by (simp add: pods_on_def issued_def)
qed

lemma map_of_update_same: "map_of (AList.update k v al) k = Some v"
  by (simp add: update_conv')

lemma v1_patch_node_no_faults:
  assumes "no_api_faults e" and "list_ex (\<lambda>x. nname x = n) (nodes w)"
      and "v1_patch_node e n b w = (r, w')"
  shows "r = Inr () \<and> nodes w' = patched n b (nodes w)"
  using assms(2,3) assms(1)[unfolded no_api_faults_def, rule_format, of "logged (PatchNode n b) w"]
  by (auto simp: v1_patch_node_def Let_def patched_def)

lemma drain_timed_out_applied:
  assumes run: "subprocess_run e (logged (KubectlDrain n t) w) = (Some TimeoutExpired, ns, ps)"
      and api: "no_api_faults e"
      and ex: "list_ex (\<lambda>x. nname x = n) ns"
  shows "nodes (snd (drain_node_with_timeout e n t w))
          = patched n (SpecUnschedulable False) (patched n (MetadataLabel ''drain-status'' ''failed'') ns)"
proof -
  let ?w1 = "(logged (KubectlDrain n t) w)\<lparr>nodes := ns, pods := ps\<rparr>"
  let ?w2 = "logged (ListPodForAllNamespaces n) ?w1"
  have lst: "api_fault e ?w2 = None" using api by (simp add: no_api_faults_def)
  obtain r3 w3 where p3: "v1_patch_node e n (MetadataLabel ''drain-status'' ''failed'') ?w2 = (r3, w3)"
    by (cases "v1_patch_node e n (MetadataLabel ''drain-status'' ''failed'') ?w2")
  obtain r4 w4 where p4: "v1_patch_node e n (SpecUnschedulable False) w3 = (r4, w4)"
    by (cases "v1_patch_node e n (SpecUnschedulable False) w3")
  have ex2: "list_ex (\<lambda>x. nname x = n) (nodes ?w2)" using ex by simp
  from v1_patch_node_no_faults[OF api ex2 p3]
  have r3: "r3 = Inr ()" and n3: "nodes w3 = patched n (MetadataLabel ''drain-status'' ''failed'') ns"
    by auto
  have ex3: "list_ex (\<lambda>x. nname x = n) (nodes w3)" using ex n3 by simp
  from v1_patch_node_no_faults[OF api ex3 p4] n3
  have r4: "r4 = Inr ()"
    and n4: "nodes w4 = patched n (SpecUnschedulable False) (patched n (MetadataLabel ''drain-status'' ''failed'') ns)"
    by auto
  have "drain_node_with_timeout e n t w = (Inr (Some (pods_on n ?w1)), w4)"
    using r3 r4
    by (auto simp: drain_node_with_timeout_def kubectl_drain_eq[OF run] dump_pods_on_node_def
          list_pods_ok[OF lst] label_node_eq uncordon_node_eq p3 p4)
  with n4 show ?thesis by simp
qed

lemma patched_twice_state:
  "list_all (\<lambda>x. nname x = n \<longrightarrow> \<not> unschedulable x \<and> (\<exists>ls. nlabels x = Some ls \<and> map_of ls k = Some v))
     (patched n (SpecUnschedulable False) (patched n (MetadataLabel k v) ns))"
  by (induction ns) (auto simp: patched_def apply_patch_def map_of_update_same)


text \<open>C2, as the code has it. With \<open>r\<close> what \<open>kubectl drain\<close> raised and \<open>ns\<close>,
  \<open>ps\<close> the nodes and pods it left behind:
  \<^item> a drain that completed returns \<open>None\<close>, and nothing else was called;
  \<^item> an exception other than \<open>TimeoutExpired\<close> leaves the function, and nothing else
    was called;
  \<^item> on \<open>TimeoutExpired\<close>, when the pod listing succeeds and the patches raise nothing
    but \<open>ApiException\<close>, the function lists the pods of the node, sends the label patch
    \<open>drain-status=failed\<close> and then the uncordon patch, and returns the pods that were
    on the node when the drain timed out;
  \<^item> when the API accepts both patches and the node exists, the node ends with
    \<open>unschedulable\<close> false and the label \<open>drain-status=failed\<close>.\<close>

theorem drain_node_with_timeout_contract:
  assumes "subprocess_run e (logged (KubectlDrain node_name timeout) w) = (r, ns, ps)"
  shows "(r = None \<longrightarrow>
            fst (drain_node_with_timeout e node_name timeout w) = Inr None
          \<and> issued w (snd (drain_node_with_timeout e node_name timeout w)) = [KubectlDrain node_name timeout])
       \<and> (\<forall>x. r = Some x \<and> x \<noteq> TimeoutExpired \<longrightarrow>
            fst (drain_node_with_timeout e node_name timeout w) = Inl x
          \<and> issued w (snd (drain_node_with_timeout e node_name timeout w)) = [KubectlDrain node_name timeout])
       \<and> (r = Some TimeoutExpired \<and> only_api_exceptions e
          \<and> api_fault e (logged (ListPodForAllNamespaces node_name)
                ((logged (KubectlDrain node_name timeout) w)\<lparr>nodes := ns, pods := ps\<rparr>)) = None \<longrightarrow>
            fst (drain_node_with_timeout e node_name timeout w)
              = Inr (Some (filter (\<lambda>p. pnode p = node_name) ps))
          \<and> issued w (snd (drain_node_with_timeout e node_name timeout w))
              = [KubectlDrain node_name timeout, ListPodForAllNamespaces node_name,
                 PatchNode node_name (MetadataLabel ''drain-status'' ''failed''),
                 PatchNode node_name (SpecUnschedulable False)])
       \<and> (r = Some TimeoutExpired \<and> no_api_faults e \<and> list_ex (\<lambda>x. nname x = node_name) ns \<longrightarrow>
            list_ex (\<lambda>x. nname x = node_name) (nodes (snd (drain_node_with_timeout e node_name timeout w)))
          \<and> list_all (\<lambda>x. nname x = node_name \<longrightarrow>
                 \<not> unschedulable x
               \<and> (\<exists>ls. nlabels x = Some ls \<and> map_of ls ''drain-status'' = Some ''failed''))
              (nodes (snd (drain_node_with_timeout e node_name timeout w))))"
proof (intro conjI impI allI)
  assume "r = None"
  with drain_drained[of e node_name timeout w ns ps] assms
  show "fst (drain_node_with_timeout e node_name timeout w) = Inr None"
    and "issued w (snd (drain_node_with_timeout e node_name timeout w)) = [KubectlDrain node_name timeout]"
    by (simp_all add: issued_def)
next
  fix x assume "r = Some x \<and> x \<noteq> TimeoutExpired"
  with drain_propagates[of e node_name timeout w x ns ps] assms
  show "fst (drain_node_with_timeout e node_name timeout w) = Inl x"
    and "issued w (snd (drain_node_with_timeout e node_name timeout w)) = [KubectlDrain node_name timeout]"
    by (simp_all add: issued_def)
next
  assume a: "r = Some TimeoutExpired \<and> only_api_exceptions e
          \<and> api_fault e (logged (ListPodForAllNamespaces node_name)
                ((logged (KubectlDrain node_name timeout) w)\<lparr>nodes := ns, pods := ps\<rparr>)) = None"
  with drain_timed_out[of e node_name timeout w ns ps] assms
  show "fst (drain_node_with_timeout e node_name timeout w)
              = Inr (Some (filter (\<lambda>p. pnode p = node_name) ps))"
    and "issued w (snd (drain_node_with_timeout e node_name timeout w))
              = [KubectlDrain node_name timeout, ListPodForAllNamespaces node_name,
                 PatchNode node_name (MetadataLabel ''drain-status'' ''failed''),
                 PatchNode node_name (SpecUnschedulable False)]"
    by simp_all
next
  assume a: "r = Some TimeoutExpired \<and> no_api_faults e \<and> list_ex (\<lambda>x. nname x = node_name) ns"
  with drain_timed_out_applied[of e node_name timeout w ns ps] assms
  have n: "nodes (snd (drain_node_with_timeout e node_name timeout w))
          = patched node_name (SpecUnschedulable False)
              (patched node_name (MetadataLabel ''drain-status'' ''failed'') ns)"
    by simp
  show "list_ex (\<lambda>x. nname x = node_name) (nodes (snd (drain_node_with_timeout e node_name timeout w)))"
    using a by (simp add: n)
  show "list_all (\<lambda>x. nname x = node_name \<longrightarrow>
                 \<not> unschedulable x
               \<and> (\<exists>ls. nlabels x = Some ls \<and> map_of ls ''drain-status'' = Some ''failed''))
              (nodes (snd (drain_node_with_timeout e node_name timeout w)))"
    unfolding n by (rule patched_twice_state)
qed

theorem drain_node_with_timeout_contract_witness:
  "fst (drain_node_with_timeout calm ''n1'' 60 drain_world) = Inr None
   \<and> fst (drain_node_with_timeout kubectl_failing ''n1'' 60 drain_world)
       = Inl (OtherException ''CalledProcessError'')
   \<and> fst (drain_node_with_timeout timing_out ''n1'' 60 drain_world) = Inr (Some [pod1])
   \<and> map unschedulable (nodes (snd (drain_node_with_timeout timing_out ''n1'' 60 drain_world))) = [False]
   \<and> map nlabels (nodes (snd (drain_node_with_timeout timing_out ''n1'' 60 drain_world)))
       = [Some [(''drain-status'', ''failed'')]]"
  using drain_node_with_timeout_contract[of calm "''n1''" 60 drain_world None "nodes drain_world" "pods drain_world"]
        drain_node_with_timeout_contract[of kubectl_failing "''n1''" 60 drain_world
           "Some (OtherException ''CalledProcessError'')" "nodes drain_world" "pods drain_world"]
        drain_node_with_timeout_contract[of timing_out "''n1''" 60 drain_world "Some TimeoutExpired"
           "map (\<lambda>n. n\<lparr>unschedulable := True\<rparr>) (nodes drain_world)" "pods drain_world"]
  by (simp add: calm_def kubectl_failing_def timing_out_def drain_world_def pod1_def
        only_api_exceptions_def no_api_faults_def
        drain_node_with_timeout_def kubectl_drain_def dump_pods_on_node_def
        v1_list_pod_for_all_namespaces_def pods_on_def label_node_def uncordon_node_def
        v1_patch_node_def apply_patch_def logged_def Let_def)

text \<open>C2 as stated fails: the drain times out with the node cordoned, the API
  rejects both patches with \<open>ApiException\<close>, which \<open>label_node\<close> and
  \<open>uncordon_node\<close> swallow; the pod list is returned, and the node is still
  unschedulable and carries no label.\<close>

theorem drain_node_with_timeout_rejected_patch_counterexample:
  "fst (subprocess_run api_rejecting (logged (KubectlDrain ''n1'' 60) drain_world)) = Some TimeoutExpired
   \<and> fst (drain_node_with_timeout api_rejecting ''n1'' 60 drain_world) = Inr (Some [pod1])
   \<and> map unschedulable (nodes (snd (drain_node_with_timeout api_rejecting ''n1'' 60 drain_world))) = [True]
   \<and> map nlabels (nodes (snd (drain_node_with_timeout api_rejecting ''n1'' 60 drain_world))) = [None]"
  by (simp add: calm_def api_rejecting_def timing_out_def drain_world_def pod1_def
        drain_node_with_timeout_def kubectl_drain_def dump_pods_on_node_def
        v1_list_pod_for_all_namespaces_def pods_on_def label_node_def uncordon_node_def
        v1_patch_node_def apply_patch_def logged_def Let_def)

subsection \<open>Waiting for a node to become ready\<close>

lemma history_after_sleep [simp]: "history (after_sleep e secs w) = history w @ [TimeSleep secs]"
  by (simp add: after_sleep_def)

lemma time_sleep_eq:
  "time_sleep e secs w = (if secs < 0 then (Inl ValueError, w) else (Inr (), after_sleep e secs w))"
  by (simp add: time_sleep_def after_sleep_def Let_def)

lemma time_time_eq: "time_time e w = (clock e (logged TimeTime w), logged TimeTime w)"
  by (simp add: time_time_def Let_def)

lemma poll_node_phase_eq:
  "poll_node_phase e c n w = (poll_verdict (status_reply e c n w), logged (GetNode c n) w)"
  by (auto simp: poll_node_phase_def http_get_node_def Let_def poll_verdict_def reply_phase_def
        status_reply_def
      split: sum.splits exn.splits)

lemma wait_for_node_ready_loop_unfold:
  "wait_for_node_ready_loop e c a n end_t i m k w =
     (if clock e (logged TimeTime w) < end_t \<and> k < m then
        (case poll_verdict (status_reply e c n (logged TimeTime w)) of
           Inl x \<Rightarrow> (Inl x, logged (GetNode c n) (logged TimeTime w))
         | Inr True \<Rightarrow> (Inr True, logged (GetNode c n) (logged TimeTime w))
         | Inr False \<Rightarrow>
             if i < 0 then (Inl ValueError, logged (GetNode c n) (logged TimeTime w))
             else wait_for_node_ready_loop e c a n end_t i m (k + 1)
                    (after_sleep e i (logged (GetNode c n) (logged TimeTime w))))
      else (Inr False, logged TimeTime w))"
  by (subst wait_for_node_ready_loop.simps)
     (auto simp: time_time_eq poll_node_phase_eq time_sleep_eq split: sum.splits bool.splits)

lemma wait_for_node_ready_loop_props:
  "wait_for_node_ready_loop e c a n end_t i m k w = (r, w') \<Longrightarrow>
   \<exists>cs. history w' = history w @ cs \<and> cs \<noteq> []
      \<and> list_all (polling_call c n i) cs
      \<and> int (length (filter is_GetNode cs)) \<le> max 0 (m - k)
      \<and> (r = Inr True \<longrightarrow>
            last cs = GetNode c n \<and> poll_verdict (get_node e w') = Inr True)
      \<and> (r = Inr False \<longrightarrow>
            last cs = TimeTime
          \<and> (end_t \<le> clock e w' \<or> m \<le> k + int (length (filter is_GetNode cs))))
      \<and> (0 \<le> i \<and> polls_never_raise e \<longrightarrow> (\<exists>b. r = Inr b))"
proof (induction "nat (m - k)" arbitrary: k w)
  case 0
  then have "\<not> k < m" by simp
  with "0.prems" have "r = Inr False" "w' = logged TimeTime w"
    by (simp_all add: wait_for_node_ready_loop_unfold[of e c a n end_t i m k w])
  with \<open>\<not> k < m\<close> show ?case by (auto simp: polling_call_def)
next
  case (Suc x)
  then have km: "k < m" and x: "x = nat (m - (k + 1))" by simp_all
  let ?w1 = "logged TimeTime w"
  let ?w2 = "logged (GetNode c n) ?w1"
  let ?w3 = "after_sleep e i ?w2"
  note unf = wait_for_node_ready_loop_unfold[of e c a n end_t i m k w]
  show ?case
  proof (cases "clock e ?w1 < end_t")
    case False
    with Suc.prems have "r = Inr False" "w' = ?w1" by (simp_all add: unf)
    with False show ?thesis by (auto simp: polling_call_def)
  next
    case intime: True
    have stop: ?thesis if "w' = ?w2" and "r = Inr True \<longrightarrow> poll_verdict (get_node e ?w2) = Inr True"
      and "r \<noteq> Inr False" and "0 \<le> i \<and> polls_never_raise e \<longrightarrow> (\<exists>b. r = Inr b)"
      using that km by (intro exI[of _ "[TimeTime, GetNode c n]"]) (auto simp: polling_call_def)
    have continue: ?thesis
      if rec: "wait_for_node_ready_loop e c a n end_t i m (k + 1) ?w3 = (r, w')"
    proof -
      from Suc.hyps(1)[OF x rec] obtain cs where cs:
        "history w' = history ?w3 @ cs" "cs \<noteq> []" "list_all (polling_call c n i) cs"
        "int (length (filter is_GetNode cs)) \<le> max 0 (m - (k + 1))"
        "r = Inr True \<longrightarrow> last cs = GetNode c n \<and> poll_verdict (get_node e w') = Inr True"
        "r = Inr False \<longrightarrow> last cs = TimeTime
          \<and> (end_t \<le> clock e w' \<or> m \<le> k + 1 + int (length (filter is_GetNode cs)))"
        "0 \<le> i \<and> polls_never_raise e \<longrightarrow> (\<exists>b. r = Inr b)"
        by auto
      show ?thesis
        using cs km
        by (intro exI[of _ "[TimeTime, GetNode c n, TimeSleep i] @ cs"]) (auto simp: polling_call_def)
    qed
    have reply: "status_reply e c n ?w1 = get_node e ?w2" by (simp add: status_reply_def)
    show ?thesis
    proof (cases "poll_verdict (status_reply e c n ?w1)")
      case (Inl ex)
      with Suc.prems intime km have "r = Inl ex" "w' = ?w2" by (simp_all add: unf)
      moreover have "\<not> polls_never_raise e"
      proof
        assume "polls_never_raise e"
        then obtain b where "poll_verdict (get_node e ?w2) = Inr b"
          unfolding polls_never_raise_def by blast
        with Inl reply show False by simp
      qed
      ultimately show ?thesis by (intro stop) auto
    next
      case (Inr b)
      show ?thesis
      proof (cases b)
        case True
        with Suc.prems intime km Inr have "r = Inr True" "w' = ?w2" by (simp_all add: unf)
        with Inr True reply show ?thesis by (intro stop) auto
      next
        case notready: False
        show ?thesis
        proof (cases "i < 0")
          case True
          with Suc.prems intime km Inr notready have "r = Inl ValueError" "w' = ?w2"
            by (simp_all add: unf)
          with True show ?thesis by (intro stop) auto
        next
          case False
          with Suc.prems intime km Inr notready show ?thesis by (intro continue) (simp add: unf)
        qed
      qed
    qed
  qed
qed


lemma wait_for_node_ready_eq:
  "wait_for_node_ready e c a n tm i m w =
     wait_for_node_ready_loop e c a n (clock e (logged TimeTime w) + real_of_int (tm * 60)) i m 0 (logged TimeTime w)"
  by (simp add: wait_for_node_ready_def time_time_eq)



subsection \<open>Rotation\<close>

lemma add_node_eq:
  "add_node e c a it cid ls ts w =
     ((case post_node e (logged (PostNode c (add_node_payload it cid ls ts)) w) of
         Inl x \<Rightarrow> if x = RequestException then Inr None else Inl x
       | Inr node_id \<Rightarrow> Inr node_id),
      logged (PostNode c (add_node_payload it cid ls ts)) w)"
proof -
  have p: "(let payload0 = \<lparr>instanceType = it, pconfigurationId = cid,
                      kubernetesLabels = None, kubernetesTaints = None\<rparr>;
          payload1 = (if ls \<noteq> None then payload0\<lparr>kubernetesLabels := ls\<rparr> else payload0);
          payload2 = (if ts \<noteq> None then payload1\<lparr>kubernetesTaints := ts\<rparr> else payload1)
      in f payload2) = f (add_node_payload it cid ls ts)" for f :: "payload \<Rightarrow> 'z"
    by (cases ls; cases ts) (simp_all add: add_node_payload_def Let_def)
  show ?thesis
    unfolding add_node_def p
    by (auto simp: http_post_node_def Let_def split: sum.splits exn.splits)
qed

lemma provisioning_polling: "polling_call c n i x \<Longrightarrow> provisioning_call x \<and> \<not> is_PostNode x"
  by (auto simp: polling_call_def)

lemma wait_for_node_ready_calls:
  assumes "wait_for_node_ready e c a n tm i m w = (r, w')"
  shows "\<exists>cs. history w' = history w @ cs \<and> list_all provisioning_call cs \<and> filter is_PostNode cs = []"
proof -
  from assms have "wait_for_node_ready_loop e c a n (clock e (logged TimeTime w) + real_of_int (tm * 60))
      i m 0 (logged TimeTime w) = (r, w')"
    by (simp add: wait_for_node_ready_eq)
  from wait_for_node_ready_loop_props[OF this] obtain cs where
    cs: "history w' = history (logged TimeTime w) @ cs" "list_all (polling_call c n i) cs"
    by blast
  from cs(2) have "list_all provisioning_call cs \<and> filter is_PostNode cs = []"
    by (induction cs) (auto dest: provisioning_polling)
  with cs(1) show ?thesis
    by (intro exI[of _ "TimeTime # cs"]) simp
qed

lemma rotate_node_loop_unfold:
  "rotate_node_loop e c a it cid ls ts m k w =
     (if k < m then
        (if provisionable it cid then
           (case post_node e (logged (PostNode c (add_node_payload (the it) (the cid) ls ts)) w) of
              Inl x \<Rightarrow>
                if x = RequestException
                then rotate_node_loop e c a it cid ls ts m (k + 1)
                       (logged (PostNode c (add_node_payload (the it) (the cid) ls ts)) w)
                else (Inl x, logged (PostNode c (add_node_payload (the it) (the cid) ls ts)) w)
            | Inr None \<Rightarrow>
                rotate_node_loop e c a it cid ls ts m (k + 1)
                  (logged (PostNode c (add_node_payload (the it) (the cid) ls ts)) w)
            | Inr (Some nid) \<Rightarrow>
                if nid = [] then
                  rotate_node_loop e c a it cid ls ts m (k + 1)
                    (logged (PostNode c (add_node_payload (the it) (the cid) ls ts)) w)
                else
                  (case wait_for_node_ready e c a nid 7 30 20
                          (logged (PostNode c (add_node_payload (the it) (the cid) ls ts)) w) of
                     (Inl x, w2) \<Rightarrow> (Inl x, w2)
                   | (Inr True, w2) \<Rightarrow> (Inr (Some nid), w2)
                   | (Inr False, w2) \<Rightarrow> rotate_node_loop e c a it cid ls ts m (k + 1) w2))
         else rotate_node_loop e c a it cid ls ts m (k + 1) w)
      else (Inr None, w))"
  by (subst rotate_node_loop.simps)
     (auto simp: add_node_eq truthy_def provisionable_def split: sum.splits option.splits bool.splits prod.splits)


lemma rotate_node_loop_props:
  "rotate_node_loop e c a it cid ls ts m k w = (r, w') \<Longrightarrow>
   \<exists>cs. history w' = history w @ cs \<and> list_all provisioning_call cs
      \<and> length (filter is_PostNode cs) \<le> nat (m - k)
      \<and> (r = Inr None \<longrightarrow>
            length (filter is_PostNode cs) = (if provisionable it cid then nat (m - k) else 0))
      \<and> (\<forall>nid. r = Inr (Some nid) \<longrightarrow>
            nid \<noteq> []
          \<and> (\<exists>wa. post_node e wa = Inr (Some nid) \<and> (\<exists>p. last (history wa) = PostNode c p)
                 \<and> wait_for_node_ready e c a nid 7 30 20 wa = (Inr True, w')))"
proof (induction "nat (m - k)" arbitrary: k w)
  case 0
  then have "\<not> k < m" by simp
  with "0.prems" have "r = Inr None" "w' = w"
    by (simp_all add: rotate_node_loop_unfold[of e c a it cid ls ts m k w])
  with \<open>\<not> k < m\<close> show ?case by (intro exI[of _ "[]"]) auto
next
  case (Suc x)
  then have km: "k < m" and x: "x = nat (m - (k + 1))" by simp_all
  from km have nat_step: "nat (m - k) = Suc (nat (m - (k + 1)))" by simp
  let ?P = "\<lambda>w cs. history w' = history w @ cs \<and> list_all provisioning_call cs
      \<and> length (filter is_PostNode cs) \<le> nat (m - (k + 1))
      \<and> (r = Inr None \<longrightarrow>
            length (filter is_PostNode cs) = (if provisionable it cid then nat (m - (k + 1)) else 0))
      \<and> (\<forall>nid. r = Inr (Some nid) \<longrightarrow>
            nid \<noteq> []
          \<and> (\<exists>wa. post_node e wa = Inr (Some nid) \<and> (\<exists>p. last (history wa) = PostNode c p)
                 \<and> wait_for_node_ready e c a nid 7 30 20 wa = (Inr True, w')))"
  note unf = rotate_node_loop_unfold[of e c a it cid ls ts m k w]
  show ?case
  proof (cases "provisionable it cid")
    case False
    with Suc.prems km have "rotate_node_loop e c a it cid ls ts m (k + 1) w = (r, w')"
      by (simp add: unf)
    from Suc.hyps(1)[OF x this] obtain cs where "?P w cs" by blast
    with False show ?thesis by (intro exI[of _ cs]) auto
  next
    case guard: True
    let ?w1 = "logged (PostNode c (add_node_payload (the it) (the cid) ls ts)) w"
    have retry: ?thesis if rec: "rotate_node_loop e c a it cid ls ts m (k + 1) ?w1 = (r, w')"
    proof -
      from Suc.hyps(1)[OF x rec] obtain cs where "?P ?w1 cs" by blast
      with guard nat_step show ?thesis
        by (intro exI[of _ "PostNode c (add_node_payload (the it) (the cid) ls ts) # cs"]) auto
    qed
    show ?thesis
    proof (cases "post_node e ?w1")
      case (Inl ex)
      show ?thesis
      proof (cases "ex = RequestException")
        case True
        with Suc.prems km guard Inl show ?thesis by (intro retry) (simp add: unf)
      next
        case False
        with Suc.prems km guard Inl have "r = Inl ex" "w' = ?w1" by (simp_all add: unf)
        with km show ?thesis
          by (intro exI[of _ "[PostNode c (add_node_payload (the it) (the cid) ls ts)]"]) auto
      qed
    next
      case (Inr reply)
      show ?thesis
      proof (cases reply)
        case None
        with Suc.prems km guard Inr show ?thesis by (intro retry) (simp add: unf)
      next
        case (Some nid)
        show ?thesis
        proof (cases "nid = []")
          case True
          with Suc.prems km guard Inr Some show ?thesis by (intro retry) (simp add: unf)
        next
          case nonempty: False
          obtain rw w2 where wt: "wait_for_node_ready e c a nid 7 30 20 ?w1 = (rw, w2)"
            by (cases "wait_for_node_ready e c a nid 7 30 20 ?w1")
          from wait_for_node_ready_calls[OF wt] obtain cs1 where cs1:
            "history w2 = history ?w1 @ cs1" "list_all provisioning_call cs1" "filter is_PostNode cs1 = []"
            by blast
          show ?thesis
          proof (cases rw)
            case (Inl ex)
            with Suc.prems km guard Inr Some nonempty wt have "r = Inl ex" "w' = w2"
              by (simp_all add: unf)
            with km cs1 show ?thesis
              by (intro exI[of _ "PostNode c (add_node_payload (the it) (the cid) ls ts) # cs1"]) auto
          next
            case ready: (Inr b)
            show ?thesis
            proof (cases b)
              case True
              with Suc.prems km guard Inr Some nonempty wt ready
              have res: "r = Inr (Some nid)" "w' = w2"
                by (simp_all add: unf)
              have "post_node e ?w1 = Inr (Some nid) \<and> (\<exists>p. last (history ?w1) = PostNode c p)
                    \<and> wait_for_node_ready e c a nid 7 30 20 ?w1 = (Inr True, w')"
                using Inr Some wt ready True res by simp
              then have "\<exists>wa. post_node e wa = Inr (Some nid) \<and> (\<exists>p. last (history wa) = PostNode c p)
                    \<and> wait_for_node_ready e c a nid 7 30 20 wa = (Inr True, w')"
                by blast
              with res km cs1 nonempty show ?thesis
                by (intro exI[of _ "PostNode c (add_node_payload (the it) (the cid) ls ts) # cs1"]) auto
            next
              case False
              with Suc.prems km guard Inr Some nonempty wt ready
              have rec: "rotate_node_loop e c a it cid ls ts m (k + 1) w2 = (r, w')"
                by (simp add: unf)
              from Suc.hyps(1)[OF x rec] obtain cs where "?P w2 cs" by blast
              with guard nat_step cs1 show ?thesis
                by (intro exI[of _ "PostNode c (add_node_payload (the it) (the cid) ls ts) # cs1 @ cs"]) auto
            qed
          qed
        qed
      qed
    qed
  qed
qed





lemma attempt_success:
  "fst (attempt e c a body v) = Inr (Some nid) \<longleftrightarrow>
     post_node e (logged (PostNode c body) v) = Inr (Some nid) \<and> nid \<noteq> []
     \<and> fst (wait_for_node_ready e c a nid 7 30 20 (logged (PostNode c body) v)) = Inr True"
  by (auto simp: attempt_def split: sum.splits option.splits prod.splits if_splits)


lemma get_node_label_value_world: "snd (get_node_label_value e n k w) = logged (ReadNode n) w"
  by (auto simp: get_node_label_value_def v1_read_node_def Let_def
           split: option.splits sum.splits exn.splits prod.splits)

lemma fetch_node_templates_world: "snd (fetch_node_templates e c a w) = logged (GetNodeTemplates c) w"
  by (auto simp: fetch_node_templates_def http_get_node_templates_def Let_def
           split: sum.splits exn.splits prod.splits)

lemma rotate_node_unfold:
  "rotate_node e n c a w =
     (case fst (get_node_label_value e n ''provisioner.cast.ai/node-id'' w) of
        Inl x \<Rightarrow> (Inl x, logged (ReadNode n) w)
      | Inr pid \<Rightarrow>
     (case fst (get_node_label_value e n ''scheduling.cast.ai/node-template'' (logged (ReadNode n) w)) of
        Inl x \<Rightarrow> (Inl x, logged (ReadNode n) (logged (ReadNode n) w))
      | Inr tmpl \<Rightarrow>
     (case fst (get_node_label_value e n ''node.kubernetes.io/instance-type''
                  (logged (ReadNode n) (logged (ReadNode n) w))) of
        Inl x \<Rightarrow> (Inl x, logged (ReadNode n) (logged (ReadNode n) (logged (ReadNode n) w)))
      | Inr it \<Rightarrow>
     (case fst (fetch_node_templates e c a (logged (ReadNode n) (logged (ReadNode n) (logged (ReadNode n) w)))) of
        Inl x \<Rightarrow> (Inl x, logged (GetNodeTemplates c) (logged (ReadNode n) (logged (ReadNode n) (logged (ReadNode n) w))))
      | Inr cat \<Rightarrow>
          rotate_node_loop e c a it (fst (template_overrides cat tmpl))
            (snd (snd (template_overrides cat tmpl))) (fst (snd (template_overrides cat tmpl))) 3 0
            (logged (GetNodeTemplates c) (logged (ReadNode n) (logged (ReadNode n) (logged (ReadNode n) w))))))))"
proof -
  obtain r1 where g1: "get_node_label_value e n ''provisioner.cast.ai/node-id'' w = (r1, logged (ReadNode n) w)"
    using get_node_label_value_world[of e n _ w] by (metis prod.collapse)
  obtain r2 where g2: "get_node_label_value e n ''scheduling.cast.ai/node-template'' (logged (ReadNode n) w)
      = (r2, logged (ReadNode n) (logged (ReadNode n) w))"
    using get_node_label_value_world[of e n _ "logged (ReadNode n) w"] by (metis prod.collapse)
  obtain r3 where g3: "get_node_label_value e n ''node.kubernetes.io/instance-type''
        (logged (ReadNode n) (logged (ReadNode n) w))
      = (r3, logged (ReadNode n) (logged (ReadNode n) (logged (ReadNode n) w)))"
    using get_node_label_value_world[of e n _ "logged (ReadNode n) (logged (ReadNode n) w)"]
    by (metis prod.collapse)
  obtain r4 where g4: "fetch_node_templates e c a (logged (ReadNode n) (logged (ReadNode n) (logged (ReadNode n) w)))
      = (r4, logged (GetNodeTemplates c) (logged (ReadNode n) (logged (ReadNode n) (logged (ReadNode n) w))))"
    using fetch_node_templates_world[of e c a "logged (ReadNode n) (logged (ReadNode n) (logged (ReadNode n) w))"]
    by (metis prod.collapse)
  show ?thesis
  proof (cases r1)
    case Inl
    then show ?thesis by (simp add: rotate_node_def load_config_def g1)
  next
    case i1: (Inr pid)
    show ?thesis
    proof (cases r2)
      case Inl
      then show ?thesis by (simp add: rotate_node_def load_config_def g1 g2 i1)
    next
      case i2: (Inr tmpl)
      show ?thesis
      proof (cases r3)
        case Inl
        then show ?thesis by (simp add: rotate_node_def load_config_def g1 g2 g3 i1 i2)
      next
        case i3: (Inr it)
        show ?thesis
        proof (cases r4)
          case Inl
          then show ?thesis by (simp add: rotate_node_def load_config_def g1 g2 g3 g4 i1 i2 i3)
        next
          case i4: (Inr cat)
          then show ?thesis
            by (simp add: rotate_node_def load_config_def g1 g2 g3 g4 i1 i2 i3 split: prod.splits)
        qed
      qed
    qed
  qed
qed


lemma provisioning_not_kubernetes: "provisioning_call x \<Longrightarrow> \<not> kubernetes_call x \<and> \<not> mutating_call x"
  by (cases x) auto

lemma provisioning_calls_filter:
  "list_all provisioning_call cs \<Longrightarrow>
   filter kubernetes_call cs = [] \<and> list_all (\<lambda>c. \<not> mutating_call c) cs"
  by (induction cs) (auto dest: provisioning_not_kubernetes)

lemma rotate_node_returned:
  assumes "rotate_node e n c a w = (Inr res, w')"
  shows "\<exists>tmpl it cat.
           fst (get_node_label_value e n ''scheduling.cast.ai/node-template'' (logged (ReadNode n) w)) = Inr tmpl
         \<and> fst (get_node_label_value e n ''node.kubernetes.io/instance-type''
                  (logged (ReadNode n) (logged (ReadNode n) w))) = Inr it
         \<and> fst (fetch_node_templates e c a (label_reads n w)) = Inr cat
         \<and> rotate_node_loop e c a it (fst (template_overrides cat tmpl))
              (snd (snd (template_overrides cat tmpl))) (fst (snd (template_overrides cat tmpl))) 3 0
              (logged (GetNodeTemplates c) (label_reads n w)) = (Inr res, w')"
  using assms unfolding rotate_node_unfold[of e n c a w] label_reads_def
  by (auto split: sum.splits)

text \<open>C4: a rotation that ends in exhaustion (\<open>rotate_node\<close> returns \<open>None\<close>) issued
  no call that changes a node (no patch, hence no cordon, uncordon or label, no
  \<open>kubectl drain\<close>, no drain through the CAST AI API), and its only calls to the
  cluster are the three reads of the original node.\<close>

theorem rotate_node_exhaustion_leaves_node:
  assumes "rotate_node e node_name cluster_id api_key w = (Inr None, w')"
  shows "list_all (\<lambda>c. \<not> mutating_call c) (issued w w')
       \<and> filter kubernetes_call (issued w w') = [ReadNode node_name, ReadNode node_name, ReadNode node_name]"
proof -
  from rotate_node_returned[OF assms] obtain tmpl it cat where
    "rotate_node_loop e cluster_id api_key it (fst (template_overrides cat tmpl))
       (snd (snd (template_overrides cat tmpl))) (fst (snd (template_overrides cat tmpl))) 3 0
       (logged (GetNodeTemplates cluster_id) (label_reads node_name w)) = (Inr None, w')"
    by blast
  from rotate_node_loop_props[OF this] obtain cs where
    cs: "history w' = history (logged (GetNodeTemplates cluster_id) (label_reads node_name w)) @ cs"
        "list_all provisioning_call cs"
    by blast
  have "issued w w' = [ReadNode node_name, ReadNode node_name, ReadNode node_name,
                       GetNodeTemplates cluster_id] @ cs"
    using cs(1) by (simp add: issued_def label_reads_def)
  with provisioning_calls_filter[OF cs(2)] show ?thesis by simp
qed

theorem rotate_node_exhaustion_leaves_node_witness:
  "fst (rotate_node provisioner_down ''n1'' ''cl'' ''key'' (rotation_world t1_labels)) = Inr None
   \<and> list_all (\<lambda>c. \<not> mutating_call c)
        (issued (rotation_world t1_labels)
           (snd (rotate_node provisioner_down ''n1'' ''cl'' ''key'' (rotation_world t1_labels))))
   \<and> filter kubernetes_call
        (issued (rotation_world t1_labels)
           (snd (rotate_node provisioner_down ''n1'' ''cl'' ''key'' (rotation_world t1_labels))))
       = [ReadNode ''n1'', ReadNode ''n1'', ReadNode ''n1'']"
proof -
  have r: "fst (rotate_node provisioner_down ''n1'' ''cl'' ''key'' (rotation_world t1_labels)) = Inr None"
    by code_simp
  then have "rotate_node provisioner_down ''n1'' ''cl'' ''key'' (rotation_world t1_labels)
      = (Inr None, snd (rotate_node provisioner_down ''n1'' ''cl'' ''key'' (rotation_world t1_labels)))"
    by (metis prod.collapse)
  from rotate_node_exhaustion_leaves_node[OF this] r show ?thesis by simp
qed

lemma rotate_node_at_most_three:
  assumes "rotate_node e n c a w = (r, w')"
  shows "length (filter is_PostNode (issued w w')) \<le> 3"
proof (cases r)
  case (Inr res)
  with assms have "rotate_node e n c a w = (Inr res, w')" by simp
  from rotate_node_returned[OF this] obtain tmpl it cat where
    "rotate_node_loop e c a it (fst (template_overrides cat tmpl))
       (snd (snd (template_overrides cat tmpl))) (fst (snd (template_overrides cat tmpl))) 3 0
       (logged (GetNodeTemplates c) (label_reads n w)) = (Inr res, w')"
    by blast
  from rotate_node_loop_props[OF this] obtain cs where
    cs: "history w' = history (logged (GetNodeTemplates c) (label_reads n w)) @ cs"
        "length (filter is_PostNode cs) \<le> nat (3 - 0)"
    by blast
  have "issued w w' = [ReadNode n, ReadNode n, ReadNode n, GetNodeTemplates c] @ cs"
    using cs(1) by (simp add: issued_def label_reads_def)
  with cs(2) show ?thesis by simp
next
  case (Inl x)
  let ?w4 = "logged (GetNodeTemplates c) (label_reads n w)"
  from assms Inl
  have "(\<exists>cs. history w' = history w @ cs \<and> filter is_PostNode cs = [])
        \<or> (\<exists>it cid ls ts. rotate_node_loop e c a it cid ls ts 3 0 ?w4 = (r, w'))"
    unfolding rotate_node_unfold[of e n c a w] label_reads_def
    by (auto split: sum.splits)
  then show ?thesis
  proof
    assume "\<exists>cs. history w' = history w @ cs \<and> filter is_PostNode cs = []"
    then show ?thesis by (auto simp: issued_def)
  next
    assume "\<exists>it cid ls ts. rotate_node_loop e c a it cid ls ts 3 0 ?w4 = (r, w')"
    then obtain it cid ls ts where "rotate_node_loop e c a it cid ls ts 3 0 ?w4 = (r, w')" by blast
    from rotate_node_loop_props[OF this] obtain cs where
      cs: "history w' = history ?w4 @ cs" "length (filter is_PostNode cs) \<le> nat (3 - 0)"
      by blast
    have "issued w w' = [ReadNode n, ReadNode n, ReadNode n, GetNodeTemplates c] @ cs"
      using cs(1) by (simp add: issued_def label_reads_def)
    with cs(2) show ?thesis by simp
  qed
qed











end
